theory Spec2Isabelle
  imports Main "HOL-Library.Word"
begin

unbundle bit_operations_syntax

section \<open>Bytes, little-endian integers and Go strings\<close>

text \<open>
  A wire frame is a list of bytes. Go's \<^verbatim>\<open>binary.LittleEndian\<close> reads and writes
  fixed-width integers; \<^verbatim>\<open>int32\<close> and \<^verbatim>\<open>uint32\<close> are both \<open>32 word\<close>, read with
  \<open>sint\<close> or \<open>unat\<close> as the source's type says. Go strings are byte strings; they are
  modelled as \<open>string\<close>, one \<open>char\<close> per byte.
\<close>

type_synonym byte = "8 word"

definition le32 :: "byte list \<Rightarrow> 32 word" where
  "le32 bs = ucast (bs ! 0) OR push_bit 8 (ucast (bs ! 1))
             OR push_bit 16 (ucast (bs ! 2)) OR push_bit 24 (ucast (bs ! 3))"

definition le64 :: "byte list \<Rightarrow> 64 word" where
  "le64 bs = ucast (le32 (take 4 bs)) OR push_bit 32 (ucast (le32 (take 4 (drop 4 bs))))"

definition put32 :: "32 word \<Rightarrow> byte list" where
  "put32 w = [ucast w, ucast (drop_bit 8 w), ucast (drop_bit 16 w), ucast (drop_bit 24 w)]"

definition put64 :: "64 word \<Rightarrow> byte list" where
  "put64 w = put32 (ucast w) @ put32 (ucast (drop_bit 32 w))"

definition byte_to_char :: "byte \<Rightarrow> char" where
  "byte_to_char b = char_of (unat b)"

definition bytes_to_string :: "byte list \<Rightarrow> string" where
  "bytes_to_string bs = map byte_to_char bs"

section \<open>Errors\<close>

text \<open>
  Go \<^verbatim>\<open>error\<close> values. The sentinels \<^verbatim>\<open>io.EOF\<close>, \<^verbatim>\<open>io.ErrUnexpectedEOF\<close>,
  \<^verbatim>\<open>ErrUnsupportedRequest\<close> and \<^verbatim>\<open>ErrInvalidCursor\<close> are constructors;
  \<^verbatim>\<open>protocol.ServerError{Msg, Code}\<close> is \<open>ServerError\<close>; \<^verbatim>\<open>xerrors.Errorf(fmt, args...)\<close>
  keeps its format string, its arguments and the error wrapped by a trailing \<^verbatim>\<open>%w\<close>
  (if any). \<open>ExtError\<close> is any other error of a library, a backend or a writer.
  A panic is not an error value: it is the third outcome of \<open>result\<close>.
\<close>

datatype fmtarg = AInt int | AStr string | AWriter

datatype err =
    EOF
  | ErrUnexpectedEOF
  | ErrUnsupportedRequest
  | ErrInvalidCursor
  | ServerError string int
  | Errorf string "fmtarg list" "err option"
  | ExtError string

datatype 'a result = Ok 'a | Fail err | Panic string

text \<open>\<^verbatim>\<open>xerrors.Is(err, target)\<close>: walk the chain of wrapped errors.\<close>

fun Is :: "err \<Rightarrow> err \<Rightarrow> bool" where
  "Is (Errorf f as (Some w)) t = (Errorf f as (Some w) = t \<or> Is w t)"
| "Is e t = (e = t)"

section \<open>The framer\<close>

text \<open>
  \<^verbatim>\<open>bufferNextRequest(r, b)\<close> of the proxy server. The client stream is the list of
  bytes it still holds, followed by end of stream. \<^verbatim>\<open>io.CopyN(b, r, n)\<close> copies \<open>n\<close>
  bytes or fails with \<^verbatim>\<open>io.EOF\<close> when the stream ends early. The result is the
  buffered frame and the rest of the stream.
\<close>

definition CopyN :: "byte list \<Rightarrow> nat \<Rightarrow> err + (byte list \<times> byte list)" where
  "CopyN r n = (if length r < n then Inl EOF else Inr (take n r, drop n r))"

definition bufferNextRequest :: "byte list \<Rightarrow> err + (byte list \<times> byte list)" where
  "bufferNextRequest r =
     (case CopyN r 16 of
        Inl e \<Rightarrow> Inl (Errorf ''unable to read next request header: %w'' [] (Some e))
      | Inr (b, r1) \<Rightarrow>
          let reqLen = le32 b in
          if reqLen < 16 then
            Inl (Errorf ''request header specifies invalid message length %d''
                   [AInt (uint reqLen)] None)
          else
            let remaining = reqLen - 16 in
            (case CopyN r1 (unat remaining) of
               Inl e \<Rightarrow> Inl (Errorf ''unable to read remainder of request payload: %w'' [] (Some e))
             | Inr (p, r2) \<Rightarrow> Inr (b @ p, r2)))"

section \<open>BSON values and the external library\<close>

text \<open>
  Values of \<^verbatim>\<open>gopkg.in/mgo.v2/bson\<close> as the decoder inspects them: \<^verbatim>\<open>bson.D\<close> is an
  ordered list of named values, \<^verbatim>\<open>bson.M\<close> a Go map (a nil map reads as the empty
  map). \<open>BInt\<close> is a Go \<^verbatim>\<open>int\<close>, \<open>BArray\<close> a \<^verbatim>\<open>[]interface{}\<close>, \<open>BDoc\<close> a
  \<^verbatim>\<open>bson.D\<close>; \<open>BOther\<close> stands for a value of any other dynamic type.
  \<^verbatim>\<open>bson.Unmarshal\<close> and \<^verbatim>\<open>bson.Marshal\<close> belong to the library, not to this
  repository: every function that calls them takes them as a parameter.
\<close>

datatype bson_value =
    BString string
  | BInt int
  | BInt64 int
  | BBool bool
  | BDoc "(string \<times> bson_value) list"
  | BArray "bson_value list"
  | BOther string

type_synonym bsonD = "(string \<times> bson_value) list"
type_synonym bsonM = "string \<Rightarrow> bson_value option"
type_synonym unmarshal = "byte list \<Rightarrow> err + bsonD"
type_synonym marshal = "bsonM \<Rightarrow> err + byte list"

text \<open>\<^verbatim>\<open>bson.D.Map()\<close> stores the elements in order, so a later duplicate wins.\<close>

definition D_Map :: "bsonD \<Rightarrow> bsonM" where
  "D_Map d = map_of (rev d)"

section \<open>Requests\<close>

record RPCHeader =
  MessageLength :: "32 word"
  RequestID :: "32 word"
  ResponseTo :: "32 word"
  Opcode :: "32 word"

definition PayloadLength :: "RPCHeader \<Rightarrow> int" where
  "PayloadLength h = sint (MessageLength h) - 16"

datatype RequestType =
    RequestTypeUpdate | RequestTypeInsert | RequestTypeGetMore | RequestTypeDelete
  | RequestTypeKillCursors | RequestTypeQuery | RequestTypeCommand
  | RequestTypeFindAndUpdate | RequestTypeFindAndDelete | RequestTypeUnknown

datatype ReplyType = ReplyTypeNone | ReplyTypeOpReply | ReplyTypeOpMsg

datatype RequestInfo = RequestInfo RPCHeader RequestType ReplyType

datatype NamespacedCollection = NamespacedCollection string string

fun Database :: "NamespacedCollection \<Rightarrow> string" where
  "Database (NamespacedCollection d c) = d"

fun Collection :: "NamespacedCollection \<Rightarrow> string" where
  "Collection (NamespacedCollection d c) = c"

text \<open>\<open>UpdateTarget Selector Update ArrayFilters Flags\<close>, \<open>DeleteTarget Selector Limit\<close>.\<close>

datatype UpdateTarget = UpdateTarget bsonM bsonM "bsonM list" "32 word"

datatype DeleteTarget = DeleteTarget bsonM int

text \<open>
  The request structs, each with its embedded \<^verbatim>\<open>RequestInfo\<close> first and its fields in
  the order of the source:
  \<open>QueryRequest info Collection Flags NumToSkip NumToReturn Query Sort FieldSelector\<close>,
  \<open>FindAndUpdateRequest info Collection Query Sort Update ArrayFilters Upsert
  ReturnUpdatedDoc FieldSelector\<close>,
  \<open>FindAndDeleteRequest info Collection Query Sort FieldSelector\<close>.
\<close>

datatype Request =
    UpdateRequest RequestInfo NamespacedCollection "UpdateTarget list"
  | InsertRequest RequestInfo NamespacedCollection "32 word" "bsonM list"
  | GetMoreRequest RequestInfo NamespacedCollection "32 word" "64 word"
  | DeleteRequest RequestInfo NamespacedCollection "DeleteTarget list"
  | KillCursorsRequest RequestInfo "64 word list"
  | QueryRequest RequestInfo NamespacedCollection "32 word" "32 word" "32 word" bsonM bsonM bsonM
  | FindAndUpdateRequest RequestInfo NamespacedCollection bsonM bsonM bsonM "bsonM list"
      bool bool bsonM
  | FindAndDeleteRequest RequestInfo NamespacedCollection bsonM bsonM bsonM
  | CommandRequest RequestInfo NamespacedCollection string bsonM
  | UnknownRequest RequestInfo "byte list"

fun info :: "Request \<Rightarrow> RequestInfo" where
  "info (UpdateRequest i _ _) = i"
| "info (InsertRequest i _ _ _) = i"
| "info (GetMoreRequest i _ _ _) = i"
| "info (DeleteRequest i _ _) = i"
| "info (KillCursorsRequest i _) = i"
| "info (QueryRequest i _ _ _ _ _ _ _) = i"
| "info (FindAndUpdateRequest i _ _ _ _ _ _ _ _) = i"
| "info (FindAndDeleteRequest i _ _ _ _) = i"
| "info (CommandRequest i _ _ _) = i"
| "info (UnknownRequest i _) = i"

fun Header :: "RequestInfo \<Rightarrow> RPCHeader" where
  "Header (RequestInfo h t e) = h"

fun GetTypeI :: "RequestInfo \<Rightarrow> RequestType" where
  "GetTypeI (RequestInfo h t e) = t"

fun GetReplyTypeI :: "RequestInfo \<Rightarrow> ReplyType" where
  "GetReplyTypeI (RequestInfo h t e) = e"

definition GetType :: "Request \<Rightarrow> RequestType" where
  "GetType r = GetTypeI (info r)"

definition GetReplyType :: "Request \<Rightarrow> ReplyType" where
  "GetReplyType r = GetReplyTypeI (info r)"

definition RequestID_of :: "Request \<Rightarrow> 32 word" where
  "RequestID_of r = RequestID (Header (info r))"

section \<open>Decoding primitives\<close>

text \<open>
  The reader is the list of bytes not yet consumed. \<^verbatim>\<open>binary.Read\<close> of an \<open>n\<close>-byte
  integer goes through \<^verbatim>\<open>io.ReadFull\<close>: \<^verbatim>\<open>io.EOF\<close> when nothing is left,
  \<^verbatim>\<open>io.ErrUnexpectedEOF\<close> when fewer than \<open>n\<close> bytes are. An \<^verbatim>\<open>io.LimitReader(r, k)\<close>
  reads like a reader over the first \<open>k\<close> bytes of \<open>r\<close> (none when \<open>k \<le> 0\<close>).
\<close>

definition readN :: "nat \<Rightarrow> byte list \<Rightarrow> err + (byte list \<times> byte list)" where
  "readN n r = (if r = [] then Inl EOF
                else if length r < n then Inl ErrUnexpectedEOF
                else Inr (take n r, drop n r))"

definition bindR :: "'a result \<Rightarrow> ('a \<Rightarrow> 'b result) \<Rightarrow> 'b result" where
  "bindR m f = (case m of Ok x \<Rightarrow> f x | Fail e \<Rightarrow> Fail e | Panic p \<Rightarrow> Panic p)"

text \<open>\<^verbatim>\<open>if err != nil { return nil, xerrors.Errorf(fmt + ": %w", args..., err) }\<close>\<close>

definition wrapR :: "string \<Rightarrow> fmtarg list \<Rightarrow> 'a result \<Rightarrow> 'a result" where
  "wrapR f as m = (case m of Fail e \<Rightarrow> Fail (Errorf f as (Some e)) | x \<Rightarrow> x)"

definition read32 :: "string \<Rightarrow> fmtarg list \<Rightarrow> byte list \<Rightarrow> (32 word \<times> byte list) result" where
  "read32 f as r = (case readN 4 r of
                      Inl e \<Rightarrow> Fail (Errorf f as (Some e))
                    | Inr (b, r') \<Rightarrow> Ok (le32 b, r'))"

definition read64 :: "string \<Rightarrow> fmtarg list \<Rightarrow> byte list \<Rightarrow> (64 word \<times> byte list) result" where
  "read64 f as r = (case readN 8 r of
                      Inl e \<Rightarrow> Fail (Errorf f as (Some e))
                    | Inr (b, r') \<Rightarrow> Ok (le64 b, r'))"

definition decodeHeader :: "byte list \<Rightarrow> (RPCHeader \<times> byte list) result" where
  "decodeHeader r =
     bindR (read32 ''unable to read message length field: %w'' [] r) (\<lambda>(ml, r1).
     bindR (read32 ''unable to read request ID field: %w'' [] r1) (\<lambda>(rid, r2).
     bindR (read32 ''unable to read response to field: %w'' [] r2) (\<lambda>(rto, r3).
     bindR (read32 ''unable to read opcode field: %w'' [] r3) (\<lambda>(opc, r4).
       Ok (\<lparr>MessageLength = ml, RequestID = rid, ResponseTo = rto, Opcode = opc\<rparr>, r4)))))"

text \<open>
  \<^verbatim>\<open>decodeCString(r, maxLen)\<close>: read single bytes until the terminator, at most
  \<open>maxLen\<close> of them. The loop counter \<open>totalRead\<close> and the buffer are arguments.
\<close>

fun cstringLoop :: "int \<Rightarrow> int \<Rightarrow> byte list \<Rightarrow> byte list \<Rightarrow> (string \<times> byte list) result" where
  "cstringLoop maxLen totalRead buf [] =
     (if totalRead < maxLen
      then Fail (Errorf ''unable to read cstring from stream: %w'' [] (Some EOF))
      else Fail (Errorf ''unable to read cstring from stream: exceeded max allowed string length without locating null terminator'' [] None))"
| "cstringLoop maxLen totalRead buf (b # r) =
     (if totalRead < maxLen
      then (if b = 0 then Ok (bytes_to_string buf, r)
            else cstringLoop maxLen (totalRead + 1) (buf @ [b]) r)
      else Fail (Errorf ''unable to read cstring from stream: exceeded max allowed string length without locating null terminator'' [] None))"

definition decodeCString :: "byte list \<Rightarrow> int \<Rightarrow> (string \<times> byte list) result" where
  "decodeCString r maxLen = cstringLoop maxLen 0 [] r"

text \<open>\<^verbatim>\<open>strings.SplitN(s, ".", 2)\<close>\<close>

definition SplitN2 :: "string \<Rightarrow> string list" where
  "SplitN2 s = (if CHR ''.'' \<in> set s
                then [takeWhile (\<lambda>c. c \<noteq> CHR ''.'') s, tl (dropWhile (\<lambda>c. c \<noteq> CHR ''.'') s)]
                else [s])"

definition decodeNamespacedCollection ::
  "byte list \<Rightarrow> int \<Rightarrow> (NamespacedCollection \<times> byte list) result" where
  "decodeNamespacedCollection r maxLen =
     bindR (wrapR ''unable to decode namespaced collection: %w'' [] (decodeCString r maxLen))
       (\<lambda>(cstring, r').
          let tokens = SplitN2 cstring in
          if length tokens \<noteq> 2 then
            Fail (Errorf ''unable to decode namespaced collection: malformed namespace %q''
                    [AStr cstring] None)
          else if length (tokens ! 0) = 0 then
            Fail (Errorf ''unable to decode namespaced collection: malformed namespace %q; empty database name''
                    [AStr cstring] None)
          else if length (tokens ! 1) = 0 then
            Fail (Errorf ''unable to decode namespaced collection: malformed namespace %q; empty collection name''
                    [AStr cstring] None)
          else Ok (NamespacedCollection (tokens ! 0) (tokens ! 1), r'))"

text \<open>
  \<^verbatim>\<open>decodeBSONDocument(r)\<close>: the size prefix, then one \<^verbatim>\<open>r.Read\<close> of the rest of
  the document, which fails with \<^verbatim>\<open>io.EOF\<close> when the reader is exhausted and may
  return fewer bytes than asked for.
\<close>

definition decodeBSONDocument :: "unmarshal \<Rightarrow> byte list \<Rightarrow> (bsonD \<times> byte list) result" where
  "decodeBSONDocument um r =
     (case readN 4 r of
        Inl e \<Rightarrow> Fail (Errorf ''unable to read BSON doc from stream: %w'' [] (Some e))
      | Inr (szb, r1) \<Rightarrow>
          let docSize = le32 szb in
          if sint docSize < 4 then
            Fail (Errorf ''unable to read BSON doc from stream: invalid doc size %d''
                    [AInt (sint docSize)] None)
          else
            let rawDocSize = nat (sint docSize - 4) in
            if rawDocSize = 0 then Ok ([], r1)
            else if r1 = [] then
              Fail (Errorf ''unable to read BSON doc from stream: %w'' [] (Some EOF))
            else
              let n = min rawDocSize (length r1) in
              if n \<noteq> rawDocSize then
                Fail (Errorf ''read partial BSON doc from stream: expected to read %d bytes; got %d''
                        [AInt (int rawDocSize), AInt (int n)] None)
              else
                (case um (put32 docSize @ take rawDocSize r1) of
                   Inl e \<Rightarrow> Fail (Errorf ''unable to unmarshal BSON doc: %w'' [] (Some e))
                 | Inr d \<Rightarrow> Ok (d, drop rawDocSize r1)))"

text \<open>
  The reader position after a call of \<^verbatim>\<open>decodeBSONDocument\<close>, whether it succeeded or
  not: \<^verbatim>\<open>io.ReadFull\<close> consumes what is there, and \<^verbatim>\<open>r.Read\<close> consumes up to the
  declared size. The document loops need it when they stop at an error that wraps
  \<^verbatim>\<open>io.EOF\<close>.
\<close>

definition afterBSONDocument :: "byte list \<Rightarrow> byte list" where
  "afterBSONDocument r =
     (if length r < 4 then []
      else let docSize = le32 (take 4 r); r1 = drop 4 r in
           if sint docSize < 4 then r1 else drop (nat (sint docSize - 4)) r1)"

lemma decodeBSONDocument_shorter:
  "decodeBSONDocument um r = Ok (d, r') \<Longrightarrow> length r' < length r"
  by (auto simp add: decodeBSONDocument_def readN_def Let_def
           split: if_splits sum.splits prod.splits)

lemma afterBSONDocument_le: "length (afterBSONDocument r) \<le> length r"
  by (simp add: afterBSONDocument_def Let_def)

section \<open>Opcode decoders\<close>

definition decodeUpdateOp :: "unmarshal \<Rightarrow> RPCHeader \<Rightarrow> byte list \<Rightarrow> Request result" where
  "decodeUpdateOp um hdr r =
     bindR (read32 ''unable to reserved reserved field for update op: %w'' [] r) (\<lambda>(reserved, r1).
     bindR (wrapR ''unable to read namespaced collection for update op: %w'' []
              (decodeNamespacedCollection r1 (PayloadLength hdr - 4))) (\<lambda>(nsCol, r2).
     bindR (read32 ''unable to read flags for update op: %w'' [] r2) (\<lambda>(flags, r3).
     bindR (wrapR ''unable to read selector doc for update op: %w'' []
              (decodeBSONDocument um r3)) (\<lambda>(selectorDoc, r4).
     bindR (wrapR ''unable to read update doc for update op: %w'' []
              (decodeBSONDocument um r4)) (\<lambda>(updateDoc, r5).
       Ok (UpdateRequest (RequestInfo hdr RequestTypeUpdate ReplyTypeNone) nsCol
             [UpdateTarget (D_Map selectorDoc) (D_Map updateDoc) [] flags]))))))"

function decodeInsertDocs :: "unmarshal \<Rightarrow> byte list \<Rightarrow> bsonM list \<Rightarrow> (bsonM list) result" where
  "decodeInsertDocs um r docs =
     (case decodeBSONDocument um r of
        Fail e \<Rightarrow> if Is e EOF then Ok docs
                  else Fail (Errorf ''unable to read doc list for insert op: %w'' [] (Some e))
      | Panic p \<Rightarrow> Panic p
      | Ok (doc, r') \<Rightarrow> decodeInsertDocs um r' (docs @ [D_Map doc]))"
  by pat_completeness auto
termination
  by (relation "measure (\<lambda>(um, r, docs). length r)")
     (auto dest: decodeBSONDocument_shorter)

definition decodeInsertOp :: "unmarshal \<Rightarrow> RPCHeader \<Rightarrow> byte list \<Rightarrow> Request result" where
  "decodeInsertOp um hdr r =
     bindR (read32 ''unable to read flags for insert op: %w'' [] r) (\<lambda>(flags, r1).
     bindR (wrapR ''unable to read namespaced collection for insert op: %w'' []
              (decodeNamespacedCollection r1 (PayloadLength hdr - 4))) (\<lambda>(nsCol, r2).
     bindR (decodeInsertDocs um r2 []) (\<lambda>docs.
       Ok (InsertRequest (RequestInfo hdr RequestTypeInsert ReplyTypeNone) nsCol flags docs))))"

definition decodeGetMoreOp :: "unmarshal \<Rightarrow> RPCHeader \<Rightarrow> byte list \<Rightarrow> Request result" where
  "decodeGetMoreOp um hdr r =
     bindR (read32 ''unable to reserved reserved field for getMore op: %w'' [] r) (\<lambda>(reserved, r1).
     bindR (wrapR ''unable to read namespaced collection for getMore op: %w'' []
              (decodeNamespacedCollection r1 (PayloadLength hdr - 4))) (\<lambda>(nsCol, r2).
     bindR (read32 ''unable to read number to return for getMore op: %w'' [] r2) (\<lambda>(numToReturn, r3).
     bindR (read64 ''unable to read cursor ID for getMore op: %w'' [] r3) (\<lambda>(cursorID, r4).
       Ok (GetMoreRequest (RequestInfo hdr RequestTypeGetMore ReplyTypeOpReply) nsCol
             numToReturn cursorID)))))"

definition decodeDeleteOp :: "unmarshal \<Rightarrow> RPCHeader \<Rightarrow> byte list \<Rightarrow> Request result" where
  "decodeDeleteOp um hdr r =
     bindR (read32 ''unable to reserved reserved field for delete op: %w'' [] r) (\<lambda>(reserved, r1).
     bindR (wrapR ''unable to read namespaced collection for delete op: %w'' []
              (decodeNamespacedCollection r1 (PayloadLength hdr - 4))) (\<lambda>(nsCol, r2).
     bindR (read32 ''unable to read flags for delete op: %w'' [] r2) (\<lambda>(flags, r3).
       let limit = (if flags AND 1 = 1 then 1 else 0) in
       bindR (wrapR ''unable to read selector doc for delete op: %w'' []
                (decodeBSONDocument um r3)) (\<lambda>(queryDoc, r4).
         Ok (DeleteRequest (RequestInfo hdr RequestTypeDelete ReplyTypeNone) nsCol
               [DeleteTarget (D_Map queryDoc) limit])))))"

text \<open>
  The loop of \<^verbatim>\<open>decodeKillCursorsOp\<close> that fills \<^verbatim>\<open>cursorIDs[i]\<close>; the first argument is
  the number of ids still to read.
\<close>

fun readCursorIDs :: "nat \<Rightarrow> nat \<Rightarrow> byte list \<Rightarrow> (64 word list) result" where
  "readCursorIDs 0 i r = Ok []"
| "readCursorIDs (Suc n) i r =
     (case read64 ''unable to read cursor ID at index %d for killCurosrs op: %w'' [AInt (int i)] r of
        Fail e \<Rightarrow> Fail e
      | Panic p \<Rightarrow> Panic p
      | Ok (c, r') \<Rightarrow>
          (case readCursorIDs n (Suc i) r' of
             Ok cs \<Rightarrow> Ok (c # cs)
           | Fail e \<Rightarrow> Fail e
           | Panic p \<Rightarrow> Panic p))"

text \<open>
  \<^verbatim>\<open>make([]int64, numCursors)\<close> panics when \<open>numCursors\<close> is negative; the decoder has no
  guard and no \<^verbatim>\<open>recover\<close>.
\<close>

definition decodeKillCursorsOp :: "unmarshal \<Rightarrow> RPCHeader \<Rightarrow> byte list \<Rightarrow> Request result" where
  "decodeKillCursorsOp um hdr r =
     bindR (read32 ''unable to reserved reserved field for killCursors op: %w'' [] r) (\<lambda>(reserved, r1).
     bindR (read32 ''unable to read number of cursor IDs for killCursors op: %w'' [] r1) (\<lambda>(numCursors, r2).
       if sint numCursors < 0 then Panic ''runtime error: makeslice: len out of range''
       else
         bindR (readCursorIDs (nat (sint numCursors)) 0 r2) (\<lambda>cursorIDs.
           Ok (KillCursorsRequest (RequestInfo hdr RequestTypeKillCursors ReplyTypeNone) cursorIDs))))"

definition decodeUnknownOp :: "RPCHeader \<Rightarrow> byte list \<Rightarrow> Request result" where
  "decodeUnknownOp hdr r = Ok (UnknownRequest (RequestInfo hdr RequestTypeUnknown ReplyTypeNone) r)"

section \<open>Command decoders\<close>

text \<open>
  The decoders registered in \<^verbatim>\<open>cmdDecoder\<close>. \<^verbatim>\<open>decodeQueryOp\<close> and \<^verbatim>\<open>decodeMsgOp\<close> call
  them with the reply type as fourth argument; the source files hold their bodies with
  three arguments (\<^verbatim>\<open>src/unnamed/part_011\<close>), where the reply type is the constant
  \<^verbatim>\<open>ReplyTypeOpReply\<close>. The bodies below are those, with the caller's reply type in
  the place of the constant.
\<close>

fun insertCmdDocs :: "nat \<Rightarrow> bson_value list \<Rightarrow> (bsonM list) result" where
  "insertCmdDocs i [] = Ok []"
| "insertCmdDocs i (d # ds) =
     (case d of
        BDoc doc \<Rightarrow>
          (case insertCmdDocs (Suc i) ds of
             Ok rest \<Rightarrow> Ok (D_Map doc # rest)
           | Fail e \<Rightarrow> Fail e
           | Panic p \<Rightarrow> Panic p)
      | _ \<Rightarrow> Fail (Errorf ''malformed insert command in query doc: invalid doc at index %d''
                    [AInt (int i)] None))"

definition decodeInsertCommand ::
  "RPCHeader \<Rightarrow> NamespacedCollection \<Rightarrow> bsonM \<Rightarrow> ReplyType \<Rightarrow> Request result" where
  "decodeInsertCommand hdr nsCol cmdArgs replyType =
     (case cmdArgs ''documents'' of
        Some (BArray docList) \<Rightarrow>
          bindR (insertCmdDocs 0 docList) (\<lambda>docs.
            Ok (InsertRequest (RequestInfo hdr RequestTypeInsert replyType) nsCol
                  (case cmdArgs ''ordered'' of
                     Some (BBool ordered) \<Rightarrow> if \<not> ordered then 1 else 0
                   | _ \<Rightarrow> 0)
                  docs))
      | _ \<Rightarrow> Fail (Errorf ''malformed insert command in query doc: invalid doc list'' [] None))"

fun arrayFilterMaps :: "string \<Rightarrow> fmtarg list \<Rightarrow> nat \<Rightarrow> bson_value list \<Rightarrow> (bsonM list) result" where
  "arrayFilterMaps f as j [] = Ok []"
| "arrayFilterMaps f as j (fdoc # fs) =
     (case fdoc of
        BDoc arrayFilter \<Rightarrow>
          (case arrayFilterMaps f as (Suc j) fs of
             Ok rest \<Rightarrow> Ok (D_Map arrayFilter # rest)
           | Fail e \<Rightarrow> Fail e
           | Panic p \<Rightarrow> Panic p)
      | _ \<Rightarrow> Fail (Errorf f (as @ [AInt (int j)]) None))"

definition asDocMap :: "bson_value option \<Rightarrow> bsonM" where
  "asDocMap v = (case v of Some (BDoc d) \<Rightarrow> D_Map d | _ \<Rightarrow> Map.empty)"

definition isTrue :: "bson_value option \<Rightarrow> bool" where
  "isTrue v = (v = Some (BBool True))"

fun updateTargets :: "bsonM \<Rightarrow> nat \<Rightarrow> bson_value list \<Rightarrow> (UpdateTarget list) result" where
  "updateTargets cmdArgs i [] = Ok []"
| "updateTargets cmdArgs i (u # us) =
     (case u of
        BDoc updateDoc \<Rightarrow>
          let updateDocMap = D_Map updateDoc;
              flags = (if isTrue (updateDocMap ''upsert'') then 1 else 0)
                      OR (if isTrue (updateDocMap ''multi'') then 2 else 0)
          in
          (case (case cmdArgs ''arrayFilters'' of
                   Some (BArray arrayFilterList) \<Rightarrow>
                     arrayFilterMaps
                       ''malformed update command in query doc: invalid update doc at index %d: invalid array filter at index %d''
                       [AInt (int i)] 0 arrayFilterList
                 | _ \<Rightarrow> Ok []) of
             Fail e \<Rightarrow> Fail e
           | Panic p \<Rightarrow> Panic p
           | Ok arrayFilters \<Rightarrow>
               (case updateTargets cmdArgs (Suc i) us of
                  Ok rest \<Rightarrow>
                    Ok (UpdateTarget (asDocMap (updateDocMap ''q'')) (asDocMap (updateDocMap ''u''))
                          arrayFilters flags # rest)
                | Fail e \<Rightarrow> Fail e
                | Panic p \<Rightarrow> Panic p))
      | _ \<Rightarrow> Fail (Errorf ''malformed update command in query doc: invalid update doc at index %d''
                    [AInt (int i)] None))"

definition decodeUpdateCommand ::
  "RPCHeader \<Rightarrow> NamespacedCollection \<Rightarrow> bsonM \<Rightarrow> ReplyType \<Rightarrow> Request result" where
  "decodeUpdateCommand hdr nsCol cmdArgs replyType =
     (case cmdArgs ''updates'' of
        Some (BArray updatesDoc) \<Rightarrow>
          bindR (updateTargets cmdArgs 0 updatesDoc) (\<lambda>targets.
            Ok (UpdateRequest (RequestInfo hdr RequestTypeUpdate replyType) nsCol targets))
      | _ \<Rightarrow> Fail (Errorf ''malformed update command in query doc: invalid updates list'' [] None))"

fun deleteTargets :: "nat \<Rightarrow> bson_value list \<Rightarrow> (DeleteTarget list) result" where
  "deleteTargets i [] = Ok []"
| "deleteTargets i (d # ds) =
     (case d of
        BDoc deleteDoc \<Rightarrow>
          let deleteDocMap = D_Map deleteDoc in
          (case deleteTargets (Suc i) ds of
             Ok rest \<Rightarrow>
               Ok (DeleteTarget (asDocMap (deleteDocMap ''q''))
                     (case deleteDocMap ''limit'' of Some (BInt limit) \<Rightarrow> limit | _ \<Rightarrow> 0) # rest)
           | Fail e \<Rightarrow> Fail e
           | Panic p \<Rightarrow> Panic p)
      | _ \<Rightarrow> Fail (Errorf ''malformed delete command in query doc: invalid delete doc at index %d''
                    [AInt (int i)] None))"

definition decodeDeleteCommand ::
  "RPCHeader \<Rightarrow> NamespacedCollection \<Rightarrow> bsonM \<Rightarrow> ReplyType \<Rightarrow> Request result" where
  "decodeDeleteCommand hdr nsCol cmdArgs replyType =
     (case cmdArgs ''deletes'' of
        Some (BArray deletesDoc) \<Rightarrow>
          bindR (deleteTargets 0 deletesDoc) (\<lambda>targets.
            Ok (DeleteRequest (RequestInfo hdr RequestTypeDelete replyType) nsCol targets))
      | _ \<Rightarrow> Fail (Errorf ''malformed delete command in query doc: invalid deletes list'' [] None))"

definition asInt32 :: "bson_value option \<Rightarrow> 32 word" where
  "asInt32 v = (case v of Some (BInt n) \<Rightarrow> word_of_int n | _ \<Rightarrow> 0)"

definition decodeFindCommand ::
  "RPCHeader \<Rightarrow> NamespacedCollection \<Rightarrow> bsonM \<Rightarrow> ReplyType \<Rightarrow> Request result" where
  "decodeFindCommand hdr nsCol cmdArgs replyType =
     Ok (QueryRequest (RequestInfo hdr RequestTypeQuery replyType) nsCol 0
           (asInt32 (cmdArgs ''skip'')) (asInt32 (cmdArgs ''limit''))
           (asDocMap (cmdArgs ''filter'')) (asDocMap (cmdArgs ''sort''))
           (asDocMap (cmdArgs ''projection'')))"

definition decodeFindAndModifyCommand ::
  "RPCHeader \<Rightarrow> NamespacedCollection \<Rightarrow> bsonM \<Rightarrow> ReplyType \<Rightarrow> Request result" where
  "decodeFindAndModifyCommand hdr nsCol cmdArgs replyType =
     (let query = asDocMap (cmdArgs ''query'');
          sort = asDocMap (cmdArgs ''sort'');
          fieldSelector = asDocMap (cmdArgs ''fields'')
      in
      if isTrue (cmdArgs ''remove'') then
        Ok (FindAndDeleteRequest (RequestInfo hdr RequestTypeFindAndDelete replyType) nsCol
              query sort fieldSelector)
      else
        (case cmdArgs ''update'' of
           Some (BDoc updateDoc) \<Rightarrow>
             bindR (case cmdArgs ''arrayFilters'' of
                      Some (BArray arrayFilterList) \<Rightarrow>
                        arrayFilterMaps
                          ''malformed findAndUpdate command: invalid array filter at index %d''
                          [] 0 arrayFilterList
                    | _ \<Rightarrow> Ok []) (\<lambda>arrayFilters.
               Ok (FindAndUpdateRequest (RequestInfo hdr RequestTypeFindAndUpdate replyType) nsCol
                     query sort (D_Map updateDoc) arrayFilters
                     (isTrue (cmdArgs ''upsert'')) (isTrue (cmdArgs ''new'')) fieldSelector))
         | _ \<Rightarrow> Fail (Errorf ''findAndModify command missing update document in arg list'' [] None)))"

definition cmdDecoder ::
  "string \<Rightarrow> (RPCHeader \<Rightarrow> NamespacedCollection \<Rightarrow> bsonM \<Rightarrow> ReplyType \<Rightarrow> Request result) option" where
  "cmdDecoder name =
     (if name = ''insert'' then Some decodeInsertCommand
      else if name = ''update'' then Some decodeUpdateCommand
      else if name = ''delete'' then Some decodeDeleteCommand
      else if name = ''find'' then Some decodeFindCommand
      else if name = ''findAndModify'' then Some decodeFindAndModifyCommand
      else None)"

section \<open>OP_QUERY and OP_MSG\<close>

definition decodeQueryOp :: "unmarshal \<Rightarrow> RPCHeader \<Rightarrow> byte list \<Rightarrow> Request result" where
  "decodeQueryOp um hdr r =
     bindR (read32 ''unable to read flags for query op: %w'' [] r) (\<lambda>(flags, r1).
     bindR (wrapR ''unable to read namespaced collection for query op: %w'' []
              (decodeNamespacedCollection r1 (PayloadLength hdr - 4))) (\<lambda>(nsCol, r2).
     bindR (read32 ''unable to read number of docs to skip for query op: %w'' [] r2) (\<lambda>(numToSkip, r3).
     bindR (read32 ''unable to read number of docs to return for query op: %w'' [] r3) (\<lambda>(numToReturn, r4).
     bindR (wrapR ''unable to read query doc for query op: %w'' []
              (decodeBSONDocument um r4)) (\<lambda>(queryDoc, r5).
     bindR (case decodeBSONDocument um r5 of
              Fail e \<Rightarrow> if \<not> Is e EOF
                        then Fail (Errorf ''unable to read field selector doc for query op: %w'' [] (Some e))
                        else Ok []
            | Panic p \<Rightarrow> Panic p
            | Ok (d, r6) \<Rightarrow> Ok d) (\<lambda>fieldSelectorDoc.
       if Collection nsCol \<noteq> ''$cmd'' then
         Ok (QueryRequest (RequestInfo hdr RequestTypeQuery ReplyTypeOpReply) nsCol flags
               numToSkip numToReturn (D_Map queryDoc) Map.empty (D_Map fieldSelectorDoc))
       else if length queryDoc = 0 then
         Fail (Errorf ''malformed query command'' [] None)
       else
         let cmdName = fst (hd queryDoc);
             nsCol' = (case snd (hd queryDoc) of
                         BString colName \<Rightarrow> NamespacedCollection (Database nsCol) colName
                       | _ \<Rightarrow> nsCol);
             cmdArgs = (D_Map queryDoc)(cmdName := None)
         in
         (case cmdDecoder cmdName of
            Some dec \<Rightarrow> dec hdr nsCol' cmdArgs ReplyTypeOpReply
          | None \<Rightarrow>
              Ok (CommandRequest (RequestInfo hdr RequestTypeCommand ReplyTypeOpReply)
                    nsCol' cmdName cmdArgs))))))))"

text \<open>
  The inner loop of a kind 1 section: documents are read from the section reader until
  an error that wraps \<^verbatim>\<open>io.EOF\<close>. The result holds the reader position at the
  \<^verbatim>\<open>break\<close>.
\<close>

function sectionDocs ::
  "unmarshal \<Rightarrow> nat \<Rightarrow> nat \<Rightarrow> byte list \<Rightarrow> bson_value list \<Rightarrow> (bson_value list \<times> byte list) result" where
  "sectionDocs um sect docIdx r docs =
     (case decodeBSONDocument um r of
        Fail e \<Rightarrow>
          if Is e EOF then Ok (docs, afterBSONDocument r)
          else Fail (Errorf ''unable to parse doc at index %d in section of type %d at index %d in msg op: %w''
                       [AInt (int docIdx), AInt 1, AInt (int sect)] (Some e))
      | Panic p \<Rightarrow> Panic p
      | Ok (doc, r') \<Rightarrow> sectionDocs um sect (Suc docIdx) r' (docs @ [BDoc doc]))"
  by pat_completeness auto
termination
  by (relation "measure (\<lambda>(um, sect, docIdx, r, docs). length r)")
     (auto dest: decodeBSONDocument_shorter)

lemma cstringLoop_shorter:
  "cstringLoop m t buf r = Ok (s, r') \<Longrightarrow> length r' < length r"
  by (induction m t buf r rule: cstringLoop.induct) (auto split: if_splits)

lemma sectionDocs_le:
  "sectionDocs um sect docIdx r docs = Ok (ds, r') \<Longrightarrow> length r' \<le> length r"
proof (induction um sect docIdx r docs rule: sectionDocs.induct)
  case (1 um sect docIdx r docs)
  show ?case
  proof (cases "decodeBSONDocument um r")
    case (Ok x)
    obtain doc r1 where x: "x = (doc, r1)" by (cases x)
    have "length r1 < length r"
      using Ok x by (auto dest: decodeBSONDocument_shorter)
    moreover have "length r' \<le> length r1"
      using "1.IH" [OF Ok x [symmetric]] "1.prems" Ok x by simp
    ultimately show ?thesis by simp
  next
    case (Fail e)
    then show ?thesis
      using "1.prems" afterBSONDocument_le [of r] by (auto split: if_splits)
  next
    case (Panic p)
    then show ?thesis using "1.prems" by simp
  qed
qed

text \<open>
  The section loop of \<^verbatim>\<open>decodeMsgOp\<close>. It ends only when the read of the next kind byte
  meets \<^verbatim>\<open>io.EOF\<close>, that is when the payload is exhausted. The result is the last body
  section read, the document sequences in order, and the reader.
\<close>

function msgSections ::
  "unmarshal \<Rightarrow> nat \<Rightarrow> byte list \<Rightarrow> bsonD \<Rightarrow> (string \<times> bson_value list) list
   \<Rightarrow> (bsonD \<times> (string \<times> bson_value list) list \<times> byte list) result" where
  "msgSections um sect r bodySection docSeqSections =
     (case readN 1 r of
        Inl e \<Rightarrow>
          if e = EOF then Ok (bodySection, docSeqSections, r)
          else Fail (Errorf ''unable to read kind for section at index %d in msg op: %w''
                       [AInt (int sect)] (Some e))
      | Inr (kb, r1) \<Rightarrow>
          let kind = hd kb in
          if kind = 0 then
            (case decodeBSONDocument um r1 of
               Fail e \<Rightarrow>
                 Fail (Errorf ''unable to read body for section of type %d at index %d in msg op: %w''
                         [AInt (uint kind), AInt (int sect)] (Some e))
             | Panic p \<Rightarrow> Panic p
             | Ok (cmdDoc, r2) \<Rightarrow>
                 if length cmdDoc = 0 then
                   Fail (Errorf ''malformed command in section of type %d at index %d in msg op''
                           [AInt (uint kind), AInt (int sect)] None)
                 else msgSections um (Suc sect) r2 cmdDoc docSeqSections)
          else if kind = 1 then
            (case read32 ''unable to read size for section of type %d at index %d in msg op: %w''
                    [AInt (uint kind), AInt (int sect)] r1 of
               Fail e \<Rightarrow> Fail e
             | Panic p \<Rightarrow> Panic p
             | Ok (sz, r2) \<Rightarrow>
                 (case decodeCString (take (nat (uint sz - 4)) r2) (uint sz) of
                    Fail e \<Rightarrow>
                      Fail (Errorf ''unable to parse override path in section of type %d at index %d in msg op: %w''
                              [AInt (uint kind), AInt (int sect)] (Some e))
                  | Panic p \<Rightarrow> Panic p
                  | Ok (path, v1) \<Rightarrow>
                      (case sectionDocs um sect 0 v1 [] of
                         Fail e \<Rightarrow> Fail e
                       | Panic p \<Rightarrow> Panic p
                       | Ok (docs, v2) \<Rightarrow>
                           msgSections um (Suc sect) (v2 @ drop (nat (uint sz - 4)) r2)
                             bodySection (docSeqSections @ [(path, docs)]))))
          else
            Fail (Errorf ''unknown type %d for section at index %d in msg op''
                    [AInt (uint kind), AInt (int sect)] None))"
  by pat_completeness auto
termination
proof (relation "measure (\<lambda>(um, sect, r, b, ds). length r)", goal_cases)
  case 1
  show ?case by simp
next
  case (2 um sect r bodySection docSeqSections x2 kb r1 kind x1 cmdDoc r2)
  then show ?case
    by (auto simp add: readN_def split: if_splits dest: decodeBSONDocument_shorter)
next
  case (3 um sect r bodySection docSeqSections x2 kb r1 kind x1 sz r2 x1a path v1 x1b docs v2)
  have a: "length r1 < length r"
    using 3 by (auto simp add: readN_def split: if_splits)
  have b: "r2 = drop 4 r1 \<and> 4 \<le> length r1"
    using 3 by (auto simp add: read32_def readN_def split: if_splits sum.splits)
  have c: "length v1 < length (take (nat (uint sz - 4)) r2)"
    using 3 cstringLoop_shorter [of "uint sz" 0 "[]" "take (nat (uint sz - 4)) r2" path v1]
    by (simp add: decodeCString_def)
  have d: "length v2 \<le> length v1"
    using 3 sectionDocs_le [of um sect 0 v1 "[]" docs v2] by simp
  have "length (v2 @ drop (nat (uint sz - 4)) r2) < length r2 + 1"
    using c d by (simp add: min_def split: if_splits)
  then show ?case using a b by simp
qed

definition decodeMsgOp :: "unmarshal \<Rightarrow> RPCHeader \<Rightarrow> byte list \<Rightarrow> Request result" where
  "decodeMsgOp um hdr r =
     bindR (read32 ''unable to read flags for msg op: %w'' [] r) (\<lambda>(flags, r1).
     bindR (msgSections um 0 r1 [] []) (\<lambda>(bodySection, docSeqSections, r2).
     bindR (if flags AND 1 = 1
            then bindR (read32 ''unable to read CRC32 value for msg op: %w'' [] r2)
                   (\<lambda>(crc32, r3). Ok r3)
            else Ok r2) (\<lambda>r3.
       if length bodySection = 0 then
         Fail (Errorf ''unable to parse msg op: no type 0 section present'' [] None)
       else if length docSeqSections > 1 then
         Fail (Errorf ''unable to parse msg op: parser only supports up to one section of type 1'' [] None)
       else
         let cmdName = fst (hd bodySection);
             colName = (case snd (hd bodySection) of BString c \<Rightarrow> c | _ \<Rightarrow> []);
             cmdArgs0 = (D_Map bodySection)(cmdName := None);
             dbSet = (case cmdArgs0 ''$db'' of Some (BString dbName) \<Rightarrow> dbName \<noteq> [] | _ \<Rightarrow> False);
             nsCol = NamespacedCollection
                       (case cmdArgs0 ''$db'' of Some (BString dbName) \<Rightarrow> dbName | _ \<Rightarrow> [])
                       colName;
             cmdArgs1 = (if dbSet then cmdArgs0(''$db'' := None) else cmdArgs0)
         in
         bindR (if length docSeqSections = 1 then
                  (let sec = hd docSeqSections in
                   if CHR ''.'' \<in> set (fst sec) then
                     Fail (Errorf ''unable to parse msg op: parser does not support nested paths for type 1 payloads'' [] None)
                   else Ok (cmdArgs1(fst sec \<mapsto> BArray (snd sec))))
                else Ok cmdArgs1) (\<lambda>cmdArgs.
           (case cmdDecoder cmdName of
              Some dec \<Rightarrow>
                wrapR ''unable to parse command %q in msg op: %w'' [AStr cmdName]
                  (dec hdr nsCol cmdArgs ReplyTypeOpMsg)
            | None \<Rightarrow>
                Ok (CommandRequest (RequestInfo hdr RequestTypeCommand ReplyTypeOpMsg)
                      nsCol cmdName cmdArgs))))))"

section \<open>Decode\<close>

definition opDecoder ::
  "32 word \<Rightarrow> (unmarshal \<Rightarrow> RPCHeader \<Rightarrow> byte list \<Rightarrow> Request result) option" where
  "opDecoder opcode =
     (if opcode = 2001 then Some decodeUpdateOp
      else if opcode = 2002 then Some decodeInsertOp
      else if opcode = 2004 then Some decodeQueryOp
      else if opcode = 2005 then Some decodeGetMoreOp
      else if opcode = 2006 then Some decodeDeleteOp
      else if opcode = 2007 then Some decodeKillCursorsOp
      else if opcode = 2013 then Some decodeMsgOp
      else None)"

definition Decode :: "unmarshal \<Rightarrow> byte list \<Rightarrow> Request result" where
  "Decode um req =
     (case decodeHeader req of
        Fail e \<Rightarrow> Fail (Errorf ''unable to decode request header: %w'' [] (Some e))
      | Panic p \<Rightarrow> Panic p
      | Ok (hdr, r) \<Rightarrow>
          (case opDecoder (Opcode hdr) of
             Some dec \<Rightarrow> dec um hdr r
           | None \<Rightarrow> decodeUnknownOp hdr r))"

section \<open>Responses and Encode\<close>

record Response =
  Flags :: "32 word"
  CursorID :: "64 word"
  StartingFrom :: "32 word"
  Documents :: "bsonM list"

definition ResponseFlagCursorNotFound :: "32 word" where
  "ResponseFlagCursorNotFound = 1"

definition ResponseFlagQueryError :: "32 word" where
  "ResponseFlagQueryError = 2"

definition emptyResponse :: Response where
  "emptyResponse = \<lparr>Flags = 0, CursorID = 0, StartingFrom = 0, Documents = []\<rparr>"

text \<open>
  An \<^verbatim>\<open>io.Writer\<close>: the bytes written so far, and which writes fail. A failed write
  leaves the written bytes as they were.
\<close>

record Writer =
  wbuf :: "byte list"
  wfail :: "byte list \<Rightarrow> err option"

definition Write :: "Writer \<Rightarrow> byte list \<Rightarrow> Writer \<times> err option" where
  "Write w d = (case wfail w d of
                  Some e \<Rightarrow> (w, Some e)
                | None \<Rightarrow> (w\<lparr>wbuf := wbuf w @ d\<rparr>, None))"

text \<open>
  The encoders write into a \<^verbatim>\<open>bytes.Buffer\<close>, which never fails: each returns the bytes
  it appended, or the error it returned.
\<close>

definition writeHeaderTo :: "RPCHeader \<Rightarrow> byte list" where
  "writeHeaderTo hdr = put32 (MessageLength hdr) @ put32 (RequestID hdr)
                       @ put32 (ResponseTo hdr) @ put32 (Opcode hdr)"

text \<open>
  The document loop of both encoders. On a marshalling failure the source wraps the
  writer \<^verbatim>\<open>w\<close>, not the error.
\<close>

fun writeDocs :: "marshal \<Rightarrow> nat \<Rightarrow> bsonM list \<Rightarrow> err + byte list" where
  "writeDocs mar docIndex [] = Inr []"
| "writeDocs mar docIndex (doc # docs) =
     (case mar doc of
        Inl e \<Rightarrow> Inl (Errorf ''unable to marshal reply doc at index %d: %w''
                       [AInt (int docIndex), AWriter] None)
      | Inr docData \<Rightarrow>
          (case writeDocs mar (Suc docIndex) docs of
             Inl e \<Rightarrow> Inl e
           | Inr rest \<Rightarrow> Inr (docData @ rest)))"

definition writeOpReplyTo :: "marshal \<Rightarrow> Response \<Rightarrow> err + byte list" where
  "writeOpReplyTo mar r =
     (case writeDocs mar 0 (Documents r) of
        Inl e \<Rightarrow> Inl e
      | Inr docs \<Rightarrow>
          Inr (put32 (Flags r) @ put64 (CursorID r) @ put32 (StartingFrom r)
               @ put32 (word_of_nat (length (Documents r))) @ docs))"

definition writeOpMsgTo :: "marshal \<Rightarrow> Response \<Rightarrow> err + byte list" where
  "writeOpMsgTo mar r =
     (if length (Documents r) > 1 then
        Inl (Errorf ''OP_MSG payloads with multiple documents are not supported'' [] None)
      else
        (case writeDocs mar 0 (Documents r) of
           Inl e \<Rightarrow> Inl e
         | Inr docs \<Rightarrow> Inr (put32 0 @ [0] @ docs)))"

definition Encode :: "marshal \<Rightarrow> Writer \<Rightarrow> Response \<Rightarrow> 32 word \<Rightarrow> ReplyType \<Rightarrow> Writer \<times> err option" where
  "Encode mar w r reqID replyType =
     (case replyType of
        ReplyTypeNone \<Rightarrow> (w, None)
      | _ \<Rightarrow>
          let hdr = \<lparr>MessageLength = 0, RequestID = 0, ResponseTo = reqID,
                     Opcode = (if replyType = ReplyTypeOpReply then 1 else 2013)\<rparr>;
              buf = writeHeaderTo hdr
          in
          (case (if replyType = ReplyTypeOpReply then writeOpReplyTo mar r
                 else writeOpMsgTo mar r) of
             Inl e \<Rightarrow> (w, Some (Errorf ''unable to serialize reply body: %w'' [] (Some e)))
           | Inr body \<Rightarrow>
               let resData = buf @ body in
               Write w (put32 (word_of_nat (length resData)) @ drop 4 resData)))"

section \<open>The emulator\<close>

text \<open>
  What the emulator takes from outside the repository: the BSON library,
  \<^verbatim>\<open>fmt.Sprintf\<close> and the clock.
\<close>

record ext =
  Unmarshal :: unmarshal
  Marshal :: marshal
  Sprintf :: "string \<Rightarrow> fmtarg list \<Rightarrow> string"
  Now :: bson_value

definition ErrorCodeString :: "int \<Rightarrow> string" where
  "ErrorCodeString ec = (if ec = 13 then ''Unauthorized''
                         else if ec = 76 then ''NoReplicationEnabled''
                         else ''Unknown'')"

definition ServerErrorf :: "ext \<Rightarrow> int \<Rightarrow> string \<Rightarrow> fmtarg list \<Rightarrow> err" where
  "ServerErrorf x code format args = ServerError (Sprintf x format args) code"

text \<open>\<^verbatim>\<open>err.Error()\<close>\<close>

fun Error :: "ext \<Rightarrow> err \<Rightarrow> string" where
  "Error x EOF = ''EOF''"
| "Error x ErrUnexpectedEOF = ''unexpected EOF''"
| "Error x ErrUnsupportedRequest = ''unsupported request''"
| "Error x ErrInvalidCursor = ''invalid cursor''"
| "Error x (ServerError msg code) =
     Sprintf x ''%s (code %d): %s'' [AStr (ErrorCodeString code), AInt code, AStr msg]"
| "Error x (Errorf f as None) = Sprintf x f as"
| "Error x (Errorf f as (Some w)) = Sprintf x f (as @ [AStr (Error x w)])"
| "Error x (ExtError m) = m"

text \<open>
  A backend: its name, its handler and its client-removal hook, over a state of its own.
\<close>

record 'b Backend =
  Name :: string
  HandleRequestB :: "'b \<Rightarrow> string \<Rightarrow> Request \<Rightarrow> (Response \<times> err option) \<times> 'b"
  RemoveClientB :: "'b \<Rightarrow> string \<Rightarrow> err option \<times> 'b"

text \<open>The fields of a \<^verbatim>\<open>*protocol.CommandRequest\<close>: info, Collection, Command, Args.\<close>

type_synonym CommandReq = "RequestInfo \<times> NamespacedCollection \<times> string \<times> bsonM"

type_synonym 'b cmdHandlerFn = "'b Backend \<Rightarrow> string \<Rightarrow> CommandReq \<Rightarrow> Response \<times> err option"

definition handleIsMaster :: "ext \<Rightarrow> 'b cmdHandlerFn" where
  "handleIsMaster x b clientID req =
     (emptyResponse\<lparr>Documents := [map_of
        [(''ok'', BInt 1),
         (''ismaster'', BBool True),
         (''secondary'', BBool False),
         (''readOnly'', BBool False),
         (''maxBsonObjectSize'', BInt (16 * 1024 * 1024)),
         (''maxMessageSizeBytes'', BInt (48 * 1000 * 1000)),
         (''maxWriteBatchSize'', BInt 10000),
         (''localTime'', Now x),
         (''connectionId'', BString clientID),
         (''minWireVersion'', BInt 1),
         (''maxWireVersion'', BInt 6)]]\<rparr>, None)"

definition handleWhatsMyURI :: "'b cmdHandlerFn" where
  "handleWhatsMyURI b clientID req =
     (emptyResponse\<lparr>Documents := [map_of [(''ok'', BInt 1), (''you'', BString clientID)]]\<rparr>, None)"

definition handleBuildInfo :: "'b cmdHandlerFn" where
  "handleBuildInfo b clientID req =
     (emptyResponse\<lparr>Documents := [map_of
        [(''ok'', BInt 1),
         (''version'', BString ''3.6.8''),
         (''versionArray'', BArray [BInt 3, BInt 6, BInt 8, BInt 0]),
         (''maxBsonObjectSize'', BInt (16 * 1024 * 1024))]]\<rparr>, None)"

definition handleReplSetGetStatus :: "ext \<Rightarrow> 'b cmdHandlerFn" where
  "handleReplSetGetStatus x b clientID req =
     (case req of (i, collection, command, args) \<Rightarrow>
        if Database collection \<noteq> ''admin'' then
          (emptyResponse,
           Some (ServerErrorf x 13
                   ''replSetGetStatus may only be run against the admin database.'' []))
        else
          (emptyResponse, Some (ServerErrorf x 76 ''not running with --replSet'' [])))"

text \<open>\<^verbatim>\<open>strings.Split(s, "\n")\<close>\<close>

fun splitLines :: "string \<Rightarrow> string \<Rightarrow> string list" where
  "splitLines cur [] = [cur]"
| "splitLines cur (c # cs) =
     (if c = CHR 0x0A then cur # splitLines [] cs else splitLines (cur @ [c]) cs)"

definition banner :: string where
  "banner = [CHR 0x0A]
     @ ''_  _ ____ _  _ ____ ____ _    _ ___ ____ '' @ [CHR 0x0A]
     @ ''|'' @ [CHR 0x5C] @ ''/| |  | |'' @ [CHR 0x5C] @ '' | | __ |  | |    |  |  |___ '' @ [CHR 0x0A]
     @ ''|  | |__| | '' @ [CHR 0x5C] @ ''| |__] |__| |___ |  |  |___ '' @ [CHR 0x0A]
     @ [CHR 0x0A]
     @ ''Greetings from your friendly neighborhood mongolite server.'' @ [CHR 0x0A]
     @ ''Serving incoming client request using the %q backend.'' @ [CHR 0x0A]"

definition handleGetLog :: "ext \<Rightarrow> 'b cmdHandlerFn" where
  "handleGetLog x b clientID req =
     (emptyResponse\<lparr>Documents := [map_of
        [(''ok'', BInt 1),
         (''log'', BArray (map BString (splitLines [] (Sprintf x banner [AStr (Name b)]))))]]\<rparr>,
      None)"

text \<open>
  \<^verbatim>\<open>strings.ToUpper\<close> on the ASCII letters; the other bytes are kept. (Go also maps
  letters outside ASCII; the registered command names are ASCII.)
\<close>

definition toUpperChar :: "char \<Rightarrow> char" where
  "toUpperChar c = (let n = (of_char c :: nat) in
                    if 97 \<le> n \<and> n \<le> 122 then char_of (n - 32) else c)"

definition ToUpper :: "string \<Rightarrow> string" where
  "ToUpper s = map toUpperChar s"

definition allCmds :: "ext \<Rightarrow> (string \<times> 'b cmdHandlerFn) list" where
  "allCmds x =
     [(''isMaster'', handleIsMaster x),
      (''whatsMyUri'', handleWhatsMyURI),
      (''buildInfo'', handleBuildInfo),
      (''replSetGetStatus'', handleReplSetGetStatus x),
      (''getLog'', handleGetLog x)]"

text \<open>
  \<^verbatim>\<open>registerCommandHandlers\<close>: the handlers under their upper-cased names. The five
  upper-cased names are distinct, so the order in which Go walks \<^verbatim>\<open>allCmds\<close> does not
  matter.
\<close>

definition registerCommandHandlers :: "ext \<Rightarrow> string \<Rightarrow> 'b cmdHandlerFn option" where
  "registerCommandHandlers x = map_of (map (\<lambda>(cmdName, cmdFn). (ToUpper cmdName, cmdFn)) (allCmds x))"

text \<open>
  The emulator: its backend and the backend's state, \<^verbatim>\<open>lastError\<close> (a Go map whose
  values may be \<^verbatim>\<open>nil\<close>) and \<^verbatim>\<open>cmdHandlers\<close>. The logger has no effect on what is
  returned or written.
\<close>

record 'b MongoEmulator =
  emu_b :: "'b Backend"
  emu_bstate :: "'b"
  lastError :: "string \<Rightarrow> err option option"
  cmdHandlers :: "string \<Rightarrow> 'b cmdHandlerFn option"

definition NewMongoEmulator :: "ext \<Rightarrow> 'b Backend option \<Rightarrow> 'b \<Rightarrow> err + 'b MongoEmulator" where
  "NewMongoEmulator x b st =
     (case b of
        None \<Rightarrow> Inl (Errorf ''no backend specified'' [] None)
      | Some be \<Rightarrow> Inr \<lparr>emu_b = be, emu_bstate = st, lastError = Map.empty,
                         cmdHandlers = registerCommandHandlers x\<rparr>)"

definition toErrorResponse :: "ext \<Rightarrow> err \<Rightarrow> ReplyType \<Rightarrow> Response" where
  "toErrorResponse x e replyType =
     (let flags = (if Is e ErrInvalidCursor then ResponseFlagCursorNotFound
                   else ResponseFlagQueryError);
          errDoc = (if replyType = ReplyTypeOpReply then [''$err'' \<mapsto> BString (Error x e)]
                    else (case e of
                            ServerError msg code \<Rightarrow>
                              [''errmsg'' \<mapsto> BString msg, ''code'' \<mapsto> BInt code,
                               ''codeName'' \<mapsto> BString (ErrorCodeString code)]
                          | _ \<Rightarrow> [''errmsg'' \<mapsto> BString (Error x e)]))
      in \<lparr>Flags = flags, CursorID = 0, StartingFrom = 0,
          Documents = [errDoc(''ok'' \<mapsto> BInt 0)]\<rparr>)"

definition maybeProcessClientCommand ::
  "'b MongoEmulator \<Rightarrow> string \<Rightarrow> CommandReq \<Rightarrow> Response \<times> err option" where
  "maybeProcessClientCommand emu clientID req =
     (case req of (i, collection, command, args) \<Rightarrow>
        (case cmdHandlers emu (ToUpper command) of
           Some h \<Rightarrow> h (emu_b emu) clientID req
         | None \<Rightarrow>
             (emptyResponse,
              Some (Errorf ''command %q: %w'' [AStr command] (Some ErrUnsupportedRequest)))))"

text \<open>
  \<^verbatim>\<open>process\<close>. The type assertion \<^verbatim>\<open>req.(*protocol.CommandRequest)\<close> panics on a
  request of type command that is not a \<^verbatim>\<open>*CommandRequest\<close>.
\<close>

definition process ::
  "'b MongoEmulator \<Rightarrow> string \<Rightarrow> Request \<Rightarrow> ((Response \<times> err option) \<times> 'b MongoEmulator) result" where
  "process emu clientID req =
     (case HandleRequestB (emu_b emu) (emu_bstate emu) clientID req of
        ((res, e), st) \<Rightarrow>
          let emu' = emu\<lparr>emu_bstate := st\<rparr> in
          if (case e of Some e' \<Rightarrow> Is e' ErrUnsupportedRequest | None \<Rightarrow> False)
             \<and> GetType req = RequestTypeCommand
          then (case req of
                  CommandRequest i collection command args \<Rightarrow>
                    Ok (maybeProcessClientCommand emu' clientID (i, collection, command, args), emu')
                | _ \<Rightarrow> Panic ''interface conversion: protocol.Request is not *protocol.CommandRequest'')
          else Ok ((res, e), emu'))"

text \<open>
  \<^verbatim>\<open>HandleRequest\<close>: the emulator after the call, the writer after the call and the
  returned error; or a panic.
\<close>

definition HandleRequest ::
  "ext \<Rightarrow> 'b MongoEmulator \<Rightarrow> string \<Rightarrow> Writer \<Rightarrow> byte list
   \<Rightarrow> ('b MongoEmulator \<times> Writer \<times> err option) result" where
  "HandleRequest x emu clientID w reqData =
     (case Decode (Unmarshal x) reqData of
        Fail e \<Rightarrow> Ok (emu, w, Some (Errorf ''unable to decode incoming request: %w'' [] (Some e)))
      | Panic p \<Rightarrow> Panic p
      | Ok req \<Rightarrow>
          (case process emu clientID req of
             Fail e \<Rightarrow> Fail e
           | Panic p \<Rightarrow> Panic p
           | Ok ((res, e), emu1) \<Rightarrow>
               let emu2 = (case e of
                             Some e' \<Rightarrow> emu1\<lparr>lastError := (lastError emu1)(clientID \<mapsto> Some e')\<rparr>
                           | None \<Rightarrow> emu1)
               in
               if e \<noteq> None \<and> GetReplyType req = ReplyTypeNone then Ok (emu2, w, None)
               else
                 let res' = (case e of
                               Some e' \<Rightarrow> toErrorResponse x e' (GetReplyType req)
                             | None \<Rightarrow> res);
                     emu3 = emu2\<lparr>lastError := (lastError emu2)(clientID \<mapsto> None)\<rparr>
                 in
                 if GetReplyType req \<noteq> ReplyTypeNone then
                   (case Encode (Marshal x) w res' (RequestID_of req) (GetReplyType req) of
                      (w', werr) \<Rightarrow> Ok (emu3, w', werr))
                 else Ok (emu3, w, None)))"

definition RemoveClient :: "'b MongoEmulator \<Rightarrow> string \<Rightarrow> 'b MongoEmulator \<times> err option" where
  "RemoveClient emu clientID =
     (case RemoveClientB (emu_b emu) (emu_bstate emu) clientID of
        (e, st) \<Rightarrow> (emu\<lparr>lastError := (lastError emu)(clientID := None), emu_bstate := st\<rparr>, e))"

section \<open>The connection loop\<close>

lemma bufferNextRequest_shorter:
  "bufferNextRequest r = Inr (frame, rest) \<Longrightarrow> length rest < length r"
  by (auto simp add: bufferNextRequest_def CopyN_def Let_def split: if_splits sum.splits)

text \<open>
  \<^verbatim>\<open>handleConn\<close> of the proxy server: frame the next request and hand it to the
  dispatcher, until one of them returns an error. The connection is the stream of bytes
  the client sends and the writer of the bytes it receives.
\<close>

function handleConn ::
  "ext \<Rightarrow> 'b MongoEmulator \<Rightarrow> string \<Rightarrow> Writer \<Rightarrow> byte list
   \<Rightarrow> ('b MongoEmulator \<times> Writer \<times> err) result" where
  "handleConn x emu clientID w stream =
     (case bufferNextRequest stream of
        Inl e \<Rightarrow> Ok (emu, w, e)
      | Inr (frame, rest) \<Rightarrow>
          (case HandleRequest x emu clientID w frame of
             Ok (emu', w', None) \<Rightarrow> handleConn x emu' clientID w' rest
           | Ok (emu', w', Some e) \<Rightarrow> Ok (emu', w', e)
           | Fail e \<Rightarrow> Fail e
           | Panic p \<Rightarrow> Panic p))"
  by pat_completeness auto
termination
  by (relation "measure (\<lambda>(x, emu, clientID, w, stream). length stream)")
     (auto dest: bufferNextRequest_shorter)

section \<open>Observations\<close>

text \<open>
  What the theorems observe of a result: whether \<^verbatim>\<open>Decode\<close> returned a request, its type
  and reply type, the error returned; the error that processing a frame returns; the
  emulator's \<^verbatim>\<open>lastError\<close> entry, the bytes written and the value returned after a
  call. For an \<^verbatim>\<open>OP_QUERY\<close> frame, the namespace cstring (at offset 20, bounded as
  \<^verbatim>\<open>decodeQueryOp\<close> bounds it) and the name of the first field of the query document
  (8 bytes after the cstring).
\<close>

definition isOk :: "'a result \<Rightarrow> bool" where
  "isOk m = (case m of Ok x \<Rightarrow> True | _ \<Rightarrow> False)"

definition typeOf :: "Request result \<Rightarrow> RequestType option" where
  "typeOf m = (case m of Ok r \<Rightarrow> Some (GetType r) | _ \<Rightarrow> None)"

definition queryNamespace :: "byte list \<Rightarrow> string option" where
  "queryNamespace frame =
     (case decodeCString (drop 20 frame) (sint (le32 (take 4 frame)) - 20) of
        Ok (s, r) \<Rightarrow> Some s
      | _ \<Rightarrow> None)"

definition queryFirstField :: "unmarshal \<Rightarrow> byte list \<Rightarrow> string option" where
  "queryFirstField um frame =
     (case decodeCString (drop 20 frame) (sint (le32 (take 4 frame)) - 20) of
        Ok (s, r) \<Rightarrow>
          (case decodeBSONDocument um (drop 8 r) of
             Ok (d, r') \<Rightarrow> (case d of [] \<Rightarrow> None | (k, v) # d' \<Rightarrow> Some k)
           | _ \<Rightarrow> None)
      | _ \<Rightarrow> None)"

definition errOf :: "'a result \<Rightarrow> err option" where
  "errOf m = (case m of Fail e \<Rightarrow> Some e | _ \<Rightarrow> None)"

definition replyTypeOf :: "Request result \<Rightarrow> ReplyType option" where
  "replyTypeOf m = (case m of Ok r \<Rightarrow> Some (GetReplyType r) | _ \<Rightarrow> None)"

definition processedError :: "ext \<Rightarrow> 'b MongoEmulator \<Rightarrow> string \<Rightarrow> byte list \<Rightarrow> err option" where
  "processedError x emu clientID reqData =
     (case Decode (Unmarshal x) reqData of
        Ok req \<Rightarrow> (case process emu clientID req of Ok ((res, e), emu') \<Rightarrow> e | _ \<Rightarrow> None)
      | _ \<Rightarrow> None)"

definition lastErrorAfter :: "('b MongoEmulator \<times> Writer \<times> 'e) result \<Rightarrow> string \<Rightarrow> err option option" where
  "lastErrorAfter m clientID = (case m of Ok (emu, w, e) \<Rightarrow> lastError emu clientID | _ \<Rightarrow> None)"

definition writtenAfter :: "('b MongoEmulator \<times> Writer \<times> 'e) result \<Rightarrow> byte list option" where
  "writtenAfter m = (case m of Ok (emu, w, e) \<Rightarrow> Some (wbuf w) | _ \<Rightarrow> None)"

definition returnedAfter :: "('b MongoEmulator \<times> Writer \<times> 'e) result \<Rightarrow> 'e option" where
  "returnedAfter m = (case m of Ok (emu, w, e) \<Rightarrow> Some e | _ \<Rightarrow> None)"

section \<open>Concrete inputs\<close>

text \<open>
  Inputs at which the theorems below are evaluated. \<open>exMarshal\<close> encodes an error
  document \<open>{$err: s, ok: 0}\<close> and returns the encoding of the empty document for any
  other. \<open>bigDoc\<close> is a well-formed BSON document of \<open>2^31 - 1\<close> bytes: one
  binary field \<open>k\<close> of 2147483634 zero bytes; \<open>bigMarshal\<close> returns it, for the
  responses \<open>bigResponse\<close> and \<open>bigResponse2\<close> with one and two such documents.
\<close>

definition string_to_bytes :: "string \<Rightarrow> byte list" where
  "string_to_bytes s = map (\<lambda>c. word_of_nat (of_char c)) s"

definition exMarshal :: marshal where
  "exMarshal m =
     (case m ''$err'' of
        Some (BString s) \<Rightarrow>
          (let body = [0x02, 0x24, 0x65, 0x72, 0x72, 0] @ put32 (word_of_nat (length s + 1))
                      @ string_to_bytes s @ [0]
                      @ [0x10, 0x6F, 0x6B, 0] @ put32 0 @ [0]
           in Inr (put32 (word_of_nat (length body + 4)) @ body))
      | _ \<Rightarrow> Inr [5, 0, 0, 0, 0])"

definition exWriter :: Writer where
  "exWriter = \<lparr>wbuf = [], wfail = (\<lambda>d. None)\<rparr>"

definition bigBlob :: "byte list" where
  "bigBlob = replicate 2147483634 0"

definition bigDoc :: "byte list" where
  "bigDoc = put32 0x7FFFFFFF @ [5, 0x6B, 0] @ put32 2147483634 @ [0] @ bigBlob @ [0]"

definition bigMarshal :: marshal where
  "bigMarshal m = Inr bigDoc"

definition bigResponse :: Response where
  "bigResponse = emptyResponse\<lparr>Documents := [[''k'' \<mapsto> BOther ''binary'']]\<rparr>"

definition bigResponse2 :: Response where
  "bigResponse2 = emptyResponse\<lparr>Documents := [[''k'' \<mapsto> BOther ''binary''],
                                                [''k'' \<mapsto> BOther ''binary'']]\<rparr>"

text \<open>
  Wire frames, and the BSON documents in them: \<open>{ping: 1}\<close>,
  \<open>{insert: "c", documents: []}\<close>, \<open>{getLastError: 1}\<close> and \<open>{x: 1}\<close>. \<open>exUnmarshal\<close>
  decodes these four documents; \<open>exExt\<close> collects the library functions used at the
  concrete inputs.
\<close>

definition pingDoc :: "byte list" where
  "pingDoc =
    [0x0F, 0x00, 0x00, 0x00, 0x10, 0x70, 0x69, 0x6E, 0x67, 0x00, 0x01, 0x00,
     0x00, 0x00, 0x00]"

definition insertCmdDoc :: "byte list" where
  "insertCmdDoc =
    [0x23, 0x00, 0x00, 0x00, 0x02, 0x69, 0x6E, 0x73, 0x65, 0x72, 0x74, 0x00,
     0x02, 0x00, 0x00, 0x00, 0x63, 0x00, 0x04, 0x64, 0x6F, 0x63, 0x75, 0x6D,
     0x65, 0x6E, 0x74, 0x73, 0x00, 0x05, 0x00, 0x00, 0x00, 0x00, 0x00]"

definition getLastErrorDoc :: "byte list" where
  "getLastErrorDoc =
    [0x17, 0x00, 0x00, 0x00, 0x10, 0x67, 0x65, 0x74, 0x4C, 0x61, 0x73, 0x74,
     0x45, 0x72, 0x72, 0x6F, 0x72, 0x00, 0x01, 0x00, 0x00, 0x00, 0x00]"

definition xDoc :: "byte list" where
  "xDoc =
    [0x0C, 0x00, 0x00, 0x00, 0x10, 0x78, 0x00, 0x01, 0x00, 0x00, 0x00, 0x00]"

definition msgChecksumFrame :: "byte list" where
  "msgChecksumFrame =
    [0x28, 0x00, 0x00, 0x00, 0x01, 0x00, 0x00, 0x00, 0x00, 0x00, 0x00, 0x00,
     0xDD, 0x07, 0x00, 0x00, 0x01, 0x00, 0x00, 0x00, 0x00, 0x0F, 0x00, 0x00,
     0x00, 0x10, 0x70, 0x69, 0x6E, 0x67, 0x00, 0x01, 0x00, 0x00, 0x00, 0x00,
     0xDE, 0xAD, 0xBE, 0xEF]"

definition msgPlainFrame :: "byte list" where
  "msgPlainFrame =
    [0x24, 0x00, 0x00, 0x00, 0x01, 0x00, 0x00, 0x00, 0x00, 0x00, 0x00, 0x00,
     0xDD, 0x07, 0x00, 0x00, 0x00, 0x00, 0x00, 0x00, 0x00, 0x0F, 0x00, 0x00,
     0x00, 0x10, 0x70, 0x69, 0x6E, 0x67, 0x00, 0x01, 0x00, 0x00, 0x00, 0x00]"

definition twoBodyFrame :: "byte list" where
  "twoBodyFrame =
    [0x34, 0x00, 0x00, 0x00, 0x01, 0x00, 0x00, 0x00, 0x00, 0x00, 0x00, 0x00,
     0xDD, 0x07, 0x00, 0x00, 0x00, 0x00, 0x00, 0x00, 0x00, 0x0F, 0x00, 0x00,
     0x00, 0x10, 0x70, 0x69, 0x6E, 0x67, 0x00, 0x01, 0x00, 0x00, 0x00, 0x00,
     0x00, 0x0F, 0x00, 0x00, 0x00, 0x10, 0x70, 0x69, 0x6E, 0x67, 0x00, 0x01,
     0x00, 0x00, 0x00, 0x00]"

definition nestedCmdFrame :: "byte list" where
  "nestedCmdFrame =
    [0x48, 0x00, 0x00, 0x00, 0x01, 0x00, 0x00, 0x00, 0x00, 0x00, 0x00, 0x00,
     0xD4, 0x07, 0x00, 0x00, 0x00, 0x00, 0x00, 0x00, 0x61, 0x2E, 0x62, 0x2E,
     0x24, 0x63, 0x6D, 0x64, 0x00, 0x00, 0x00, 0x00, 0x00, 0xFF, 0xFF, 0xFF,
     0xFF, 0x23, 0x00, 0x00, 0x00, 0x02, 0x69, 0x6E, 0x73, 0x65, 0x72, 0x74,
     0x00, 0x02, 0x00, 0x00, 0x00, 0x63, 0x00, 0x04, 0x64, 0x6F, 0x63, 0x75,
     0x6D, 0x65, 0x6E, 0x74, 0x73, 0x00, 0x05, 0x00, 0x00, 0x00, 0x00, 0x00]"

definition insertCmdFrame :: "byte list" where
  "insertCmdFrame =
    [0x46, 0x00, 0x00, 0x00, 0x01, 0x00, 0x00, 0x00, 0x00, 0x00, 0x00, 0x00,
     0xD4, 0x07, 0x00, 0x00, 0x00, 0x00, 0x00, 0x00, 0x61, 0x2E, 0x24, 0x63,
     0x6D, 0x64, 0x00, 0x00, 0x00, 0x00, 0x00, 0xFF, 0xFF, 0xFF, 0xFF, 0x23,
     0x00, 0x00, 0x00, 0x02, 0x69, 0x6E, 0x73, 0x65, 0x72, 0x74, 0x00, 0x02,
     0x00, 0x00, 0x00, 0x63, 0x00, 0x04, 0x64, 0x6F, 0x63, 0x75, 0x6D, 0x65,
     0x6E, 0x74, 0x73, 0x00, 0x05, 0x00, 0x00, 0x00, 0x00, 0x00]"

definition getLastErrorFrame :: "byte list" where
  "getLastErrorFrame =
    [0x3E, 0x00, 0x00, 0x00, 0x02, 0x00, 0x00, 0x00, 0x00, 0x00, 0x00, 0x00,
     0xD4, 0x07, 0x00, 0x00, 0x00, 0x00, 0x00, 0x00, 0x61, 0x64, 0x6D, 0x69,
     0x6E, 0x2E, 0x24, 0x63, 0x6D, 0x64, 0x00, 0x00, 0x00, 0x00, 0x00, 0xFF,
     0xFF, 0xFF, 0xFF, 0x17, 0x00, 0x00, 0x00, 0x10, 0x67, 0x65, 0x74, 0x4C,
     0x61, 0x73, 0x74, 0x45, 0x72, 0x72, 0x6F, 0x72, 0x00, 0x01, 0x00, 0x00,
     0x00, 0x00]"

definition insertFrame :: "byte list" where
  "insertFrame =
    [0x2A, 0x00, 0x00, 0x00, 0x01, 0x00, 0x00, 0x00, 0x00, 0x00, 0x00, 0x00,
     0xD2, 0x07, 0x00, 0x00, 0x00, 0x00, 0x00, 0x00, 0x74, 0x65, 0x73, 0x74,
     0x2E, 0x63, 0x6F, 0x6C, 0x6C, 0x00, 0x0C, 0x00, 0x00, 0x00, 0x10, 0x78,
     0x00, 0x01, 0x00, 0x00, 0x00, 0x00]"

definition getMoreFrame :: "byte list" where
  "getMoreFrame =
    [0x2A, 0x00, 0x00, 0x00, 0x03, 0x00, 0x00, 0x00, 0x00, 0x00, 0x00, 0x00,
     0xD5, 0x07, 0x00, 0x00, 0x00, 0x00, 0x00, 0x00, 0x74, 0x65, 0x73, 0x74,
     0x2E, 0x63, 0x6F, 0x6C, 0x6C, 0x00, 0x00, 0x00, 0x00, 0x00, 0x2A, 0x00,
     0x00, 0x00, 0x00, 0x00, 0x00, 0x00]"

definition exUnmarshal :: unmarshal where
  "exUnmarshal bs =
     (if bs = pingDoc then Inr [(''ping'', BInt 1)]
      else if bs = insertCmdDoc then Inr [(''insert'', BString ''c''), (''documents'', BArray [])]
      else if bs = getLastErrorDoc then Inr [(''getLastError'', BInt 1)]
      else if bs = xDoc then Inr [(''x'', BInt 1)]
      else Inl (ExtError ''Document is corrupted''))"

definition exExt :: ext where
  "exExt = \<lparr>Unmarshal = exUnmarshal, Marshal = exMarshal, Sprintf = (\<lambda>f as. f), Now = BOther ''time''\<rparr>"

definition killCursorsFrame :: "byte list" where
  "killCursorsFrame = [0x18, 0, 0, 0,  1, 0, 0, 0,  0, 0, 0, 0,  0xD7, 7, 0, 0,
                       0, 0, 0, 0,  0xFF, 0xFF, 0xFF, 0xFF]"

definition bigPayload :: "byte list" where
  "bigPayload = replicate 47999997 0"

definition bigStream :: "byte list" where
  "bigStream = put32 48000001 @ bigPayload"

text \<open>The dummy backend of the repository: every request is unsupported.\<close>

definition dummyBackend :: "unit Backend" where
  "dummyBackend = \<lparr>Name = ''dummy'',
                    HandleRequestB = (\<lambda>st clientID req. ((emptyResponse, Some ErrUnsupportedRequest), st)),
                    RemoveClientB = (\<lambda>st clientID. (None, st))\<rparr>"

text \<open>
  Two more backends: one fails every insert and supports nothing else, one knows no
  cursor. \<open>newEmu\<close> is the emulator that \<^verbatim>\<open>NewMongoEmulator\<close> returns for a backend.
\<close>

definition failingBackend :: "unit Backend" where
  "failingBackend =
     \<lparr>Name = ''failing'',
      HandleRequestB = (\<lambda>st clientID req.
         ((emptyResponse,
           Some (if GetType req = RequestTypeInsert then ExtError ''insert failed''
                 else ErrUnsupportedRequest)), st)),
      RemoveClientB = (\<lambda>st clientID. (None, st))\<rparr>"

definition cursorBackend :: "unit Backend" where
  "cursorBackend =
     \<lparr>Name = ''cursor'',
      HandleRequestB = (\<lambda>st clientID req. ((emptyResponse, Some ErrInvalidCursor), st)),
      RemoveClientB = (\<lambda>st clientID. (None, st))\<rparr>"

definition newEmu :: "unit Backend \<Rightarrow> unit MongoEmulator" where
  "newEmu b = \<lparr>emu_b = b, emu_bstate = (), lastError = Map.empty,
               cmdHandlers = registerCommandHandlers exExt\<rparr>"

definition shortStream :: "byte list" where
  "shortStream = [4, 0, 0, 0,  2, 0, 0, 0,  0, 0, 0, 0,  0xD4, 7, 0, 0]"

section \<open>Basic lemmas\<close>

lemma le32_put32: "le32 (put32 w) = w"
  unfolding le32_def put32_def
proof (rule bit_word_eqI)
  fix n assume "n < LENGTH(32)"
  then have n: "n < 32" by simp
  have c: "n < 8 \<or> (8 \<le> n \<and> n < 16) \<or> (16 \<le> n \<and> n < 24) \<or> (24 \<le> n \<and> n < 32)"
    using n by arith
  show "bit (ucast ([ucast w, ucast (drop_bit 8 w), ucast (drop_bit 16 w),
                      ucast (drop_bit 24 w)] ! 0 :: byte)
             OR push_bit 8 (ucast ([ucast w, ucast (drop_bit 8 w), ucast (drop_bit 16 w),
                      ucast (drop_bit 24 w)] ! 1 :: byte))
             OR push_bit 16 (ucast ([ucast w, ucast (drop_bit 8 w), ucast (drop_bit 16 w),
                      ucast (drop_bit 24 w)] ! 2 :: byte))
             OR push_bit 24 (ucast ([ucast w, ucast (drop_bit 8 w), ucast (drop_bit 16 w),
                      ucast (drop_bit 24 w)] ! 3 :: byte)) :: 32 word) n
        = bit w n"
    using c n by (auto simp add: bit_simps)
qed

lemma length_put32: "length (put32 w) = 4"
  by (simp add: put32_def)

lemma length_put64: "length (put64 w) = 8"
  by (simp add: put64_def length_put32)

lemma readN_put32: "readN 4 (put32 a @ xs) = Inr (put32 a, xs)"
  by (simp add: readN_def length_put32) (simp add: put32_def)

lemma read32_put32: "read32 f as (put32 a @ xs) = Ok (a, xs)"
  by (simp add: read32_def readN_put32 le32_put32)

lemma decodeHeader_put:
  "decodeHeader (put32 a @ put32 b @ put32 c @ put32 d @ xs)
   = Ok (\<lparr>MessageLength = a, RequestID = b, ResponseTo = c, Opcode = d\<rparr>, xs)"
  by (simp add: decodeHeader_def bindR_def read32_put32)

lemma Encode_written:
  assumes "Encode mar w r reqID replyType = (w', None)" and "replyType \<noteq> ReplyTypeNone"
  shows "\<exists>body. wbuf w' = wbuf w @ (put32 (word_of_nat (16 + length body)) @ put32 0 @ put32 reqID
              @ put32 (if replyType = ReplyTypeOpReply then 1 else 2013) @ body)"
  using assms
  by (cases replyType)
     (auto simp add: Encode_def Let_def writeHeaderTo_def length_put32 Write_def
           split: sum.splits option.splits)

lemma sint_of_nat_small: "n < 2 ^ 31 \<Longrightarrow> sint (word_of_nat n :: 32 word) = int n"
proof -
  assume a: "n < 2 ^ 31"
  have "signed_take_bit 31 (int n) = int n"
    by (rule signed_take_bit_int_eq_self) (use a in auto)
  then show ?thesis by (simp add: signed_of_nat)
qed

lemma length_bigBlob: "length bigBlob = 2147483634"
  by (simp add: bigBlob_def)

lemma length_bigDoc: "length bigDoc = 2147483647"
  by (simp add: bigDoc_def length_put32 length_bigBlob)

lemma big_snd: "snd (Encode bigMarshal exWriter bigResponse 7 ReplyTypeOpReply) = None"
  by (simp add: Encode_def Let_def writeOpReplyTo_def emptyResponse_def Write_def exWriter_def
        bigResponse_def bigMarshal_def)

lemma big_out: "wbuf (fst (Encode bigMarshal exWriter bigResponse 7 ReplyTypeOpReply))
   = put32 0x80000023 @ put32 0 @ put32 7 @ put32 1
     @ put32 0 @ put64 0 @ put32 0 @ put32 1 @ bigDoc"
  by (simp add: Encode_def Let_def writeOpReplyTo_def emptyResponse_def Write_def exWriter_def
        bigResponse_def bigMarshal_def writeHeaderTo_def length_put32 length_put64 length_bigDoc)

lemma readN_long: "n \<le> length r \<Longrightarrow> 0 < n \<Longrightarrow> readN n r = Inr (take n r, drop n r)"
  by (auto simp add: readN_def)

lemma read32_long: "4 \<le> length r \<Longrightarrow> read32 f as r = Ok (le32 (take 4 r), drop 4 r)"
  by (simp add: read32_def readN_long)

lemma decodeHeader_long:
  "16 \<le> length frame \<Longrightarrow>
   decodeHeader frame = Ok (\<lparr>MessageLength = le32 (take 4 frame),
                              RequestID = le32 (take 4 (drop 4 frame)),
                              ResponseTo = le32 (take 4 (drop 8 frame)),
                              Opcode = le32 (take 4 (drop 12 frame))\<rparr>, drop 16 frame)"
  by (simp add: decodeHeader_def bindR_def read32_long)

lemma CopyN_Inr: "CopyN r n = Inr (a, b) \<Longrightarrow> r = a @ b \<and> length a = n"
  by (auto simp add: CopyN_def split: if_splits)

lemma length_bigPayload: "length bigPayload = 47999997"
  by (simp add: bigPayload_def)

lemma le32_append: "length a = 4 \<Longrightarrow> le32 (a @ b) = le32 a"
  by (simp add: le32_def nth_append)

lemma bindR_OkE:
  assumes "bindR m f = Ok y"
  obtains x where "m = Ok x" and "f x = Ok y"
  using assms by (cases m) (simp_all add: bindR_def)

lemma wrapR_Ok: "wrapR f as m = Ok x \<longleftrightarrow> m = Ok x"
  by (cases m) (simp_all add: wrapR_def)

lemma read32_Ok: "read32 f as r = Ok (w, r') \<Longrightarrow> 4 \<le> length r \<and> w = le32 (take 4 r) \<and> r' = drop 4 r"
  by (auto simp add: read32_def readN_def split: if_splits)

lemma decodeHeader_short: "length frame < 16 \<Longrightarrow> decodeHeader frame \<noteq> Ok x"
  by (auto simp add: decodeHeader_def bindR_def read32_def readN_def
           split: if_splits result.splits sum.splits prod.splits)

lemma decodeHeader_Ok:
  assumes "decodeHeader frame = Ok (hdr, r)"
  shows "16 \<le> length frame \<and> r = drop 16 frame
         \<and> MessageLength hdr = le32 (take 4 frame)
         \<and> Opcode hdr = le32 (take 4 (drop 12 frame))"
proof -
  have l: "16 \<le> length frame"
    using assms decodeHeader_short [of frame "(hdr, r)"] by (cases "length frame < 16") auto
  show ?thesis using assms l by (auto simp add: decodeHeader_long)
qed

lemma decodeInsertCommand_type:
  "decodeInsertCommand hdr nsCol cmdArgs rt = Ok req \<Longrightarrow> GetType req = RequestTypeInsert"
  by (auto simp add: decodeInsertCommand_def GetType_def bindR_def
           split: option.splits bson_value.splits result.splits)

lemma decodeUpdateCommand_type:
  "decodeUpdateCommand hdr nsCol cmdArgs rt = Ok req \<Longrightarrow> GetType req = RequestTypeUpdate"
  by (auto simp add: decodeUpdateCommand_def GetType_def bindR_def
           split: option.splits bson_value.splits result.splits)

lemma decodeDeleteCommand_type:
  "decodeDeleteCommand hdr nsCol cmdArgs rt = Ok req \<Longrightarrow> GetType req = RequestTypeDelete"
  by (auto simp add: decodeDeleteCommand_def GetType_def bindR_def
           split: option.splits bson_value.splits result.splits)

lemma decodeFindCommand_type:
  "decodeFindCommand hdr nsCol cmdArgs rt = Ok req \<Longrightarrow> GetType req = RequestTypeQuery"
  by (auto simp add: decodeFindCommand_def GetType_def)

lemma decodeFindAndModifyCommand_type:
  "decodeFindAndModifyCommand hdr nsCol cmdArgs rt = Ok req \<Longrightarrow>
   GetType req = RequestTypeFindAndUpdate \<or> GetType req = RequestTypeFindAndDelete"
  by (auto simp add: decodeFindAndModifyCommand_def GetType_def bindR_def Let_def
           split: option.splits bson_value.splits result.splits if_splits)

lemma SplitN2_cmd:
  "CHR ''.'' \<notin> set db \<Longrightarrow> SplitN2 (db @ ''.$cmd'') = [db, ''$cmd'']"
proof -
  assume a: "CHR ''.'' \<notin> set db"
  have t: "takeWhile (\<lambda>c. c \<noteq> CHR ''.'') (db @ ''.$cmd'') = db"
    using a by (induction db) auto
  have d: "dropWhile (\<lambda>c. c \<noteq> CHR ''.'') (db @ ''.$cmd'') = ''.$cmd''"
    using a by (induction db) auto
  show ?thesis by (simp add: SplitN2_def t d)
qed

lemma msgSections_rest:
  "msgSections um s r b ds = Ok (b', ds', r') \<Longrightarrow> r' = []"
proof (induction um s r b ds rule: msgSections.induct)
  case (1 um sect r bodySection docSeqSections)
  note p = "1.prems" [unfolded msgSections.simps [of um sect r bodySection docSeqSections]]
  show ?case
  proof (cases "readN 1 r")
    case (Inl e)
    then show ?thesis using p by (auto simp add: readN_def split: if_splits)
  next
    case (Inr x)
    obtain kb r1 where x: "x = (kb, r1)" by (cases x)
    show ?thesis
    proof (cases "hd kb = 0")
      case True
      then show ?thesis
        using p Inr x "1.IH"(1) [OF Inr x [symmetric] refl True]
        by (auto simp add: Let_def simp del: msgSections.simps split: result.splits if_splits)
    next
      case False
      note k0 = False
      show ?thesis
      proof (cases "hd kb = 1")
        case True
        note k1 = True
        let ?f = "''unable to read size for section of type %d at index %d in msg op: %w''"
        let ?as = "[AInt (uint (hd kb)), AInt (int sect)]"
        show ?thesis
        proof (cases "read32 ?f ?as r1")
          case (Ok y)
          obtain sz r2 where y: "y = (sz, r2)" by (cases y)
          show ?thesis
          proof (cases "decodeCString (take (nat (uint sz - 4)) r2) (uint sz)")
            case c: (Ok z)
            obtain path v1 where z: "z = (path, v1)" by (cases z)
            show ?thesis
            proof (cases "sectionDocs um sect 0 v1 []")
              case d: (Ok u)
              obtain docs v2 where u: "u = (docs, v2)" by (cases u)
              have "msgSections um (Suc sect) (v2 @ drop (nat (uint sz - 4)) r2) bodySection
                      (docSeqSections @ [(path, docs)]) = Ok (b', ds', r')"
                using p Inr x k0 k1 Ok y c z d u by (simp add: Let_def del: msgSections.simps)
              then show ?thesis
                using "1.IH"(2) [OF Inr x [symmetric] refl k0 k1 Ok y [symmetric] c z [symmetric]
                                   d u [symmetric]]
                by simp
            next
              case (Fail e)
              then show ?thesis using p Inr x k0 k1 Ok y c z by (simp add: Let_def del: msgSections.simps)
            next
              case (Panic q)
              then show ?thesis using p Inr x k0 k1 Ok y c z by (simp add: Let_def del: msgSections.simps)
            qed
          next
            case (Fail e)
            then show ?thesis using p Inr x k0 k1 Ok y by (simp add: Let_def del: msgSections.simps)
          next
            case (Panic q)
            then show ?thesis using p Inr x k0 k1 Ok y by (simp add: Let_def del: msgSections.simps)
          qed
        next
          case (Fail e)
          then show ?thesis using p Inr x k0 k1 by (simp add: Let_def del: msgSections.simps)
        next
          case (Panic q)
          then show ?thesis using p Inr x k0 k1 by (simp add: Let_def del: msgSections.simps)
        qed
      next
        case False
        then show ?thesis using p Inr x k0 by (simp add: Let_def)
      qed
    qed
  qed
qed

lemma read32_Nil: "read32 f as [] = Fail (Errorf f as (Some EOF))"
  by (simp add: read32_def readN_def)

lemma decodeMsgOp_checksum:
  assumes "read32 ''unable to read flags for msg op: %w'' [] r = Ok (flags, r1)"
    and "flags AND 1 = 1"
  shows "decodeMsgOp um hdr r \<noteq> Ok req"
proof (cases "msgSections um 0 r1 [] []")
  case (Ok x)
  obtain b ds r2 where x: "x = (b, ds, r2)" by (cases x)
  have "r2 = []" using Ok x msgSections_rest by blast
  then show ?thesis
    using assms Ok x by (simp add: decodeMsgOp_def bindR_def read32_Nil)
next
  case (Fail e)
  then show ?thesis using assms by (simp add: decodeMsgOp_def bindR_def)
next
  case (Panic p)
  then show ?thesis using assms by (simp add: decodeMsgOp_def bindR_def)
qed

lemma maybeProcessClientCommand_lastError:
  "maybeProcessClientCommand (emu\<lparr>lastError := le\<rparr>) clientID req
   = maybeProcessClientCommand emu clientID req"
  by (auto simp add: maybeProcessClientCommand_def split: prod.splits option.splits)

lemma process_lastError:
  "process (emu\<lparr>lastError := le\<rparr>) clientID req
   = (case process emu clientID req of
        Ok (re, emu') \<Rightarrow> Ok (re, emu'\<lparr>lastError := le\<rparr>)
      | Fail e \<Rightarrow> Fail e
      | Panic p \<Rightarrow> Panic p)"
proof -
  obtain res e st where h: "HandleRequestB (emu_b emu) (emu_bstate emu) clientID req = ((res, e), st)"
    by (metis prod.collapse)
  have u: "emu\<lparr>lastError := le, emu_bstate := st\<rparr> = emu\<lparr>emu_bstate := st, lastError := le\<rparr>"
    by simp
  show ?thesis
  proof (cases "(case e of Some e' \<Rightarrow> Is e' ErrUnsupportedRequest | None \<Rightarrow> False)
                \<and> GetType req = RequestTypeCommand")
    case True
    then show ?thesis
      using h
      by (cases req) (simp_all add: process_def Let_def u maybeProcessClientCommand_lastError)
  next
    case False
    then show ?thesis using h by (auto simp add: process_def Let_def)
  qed
qed

lemma HandleRequest_ignores_lastError:
  "writtenAfter (HandleRequest x (emu\<lparr>lastError := le1\<rparr>) clientID w reqData)
   = writtenAfter (HandleRequest x (emu\<lparr>lastError := le2\<rparr>) clientID w reqData)
   \<and> returnedAfter (HandleRequest x (emu\<lparr>lastError := le1\<rparr>) clientID w reqData)
   = returnedAfter (HandleRequest x (emu\<lparr>lastError := le2\<rparr>) clientID w reqData)"
proof (cases "Decode (Unmarshal x) reqData")
  case (Ok req)
  show ?thesis
  proof (cases "process emu clientID req")
    case p: (Ok y)
    obtain res e emu1 where y: "y = ((res, e), emu1)" by (metis prod.collapse)
    show ?thesis
      using Ok p y
      by (cases e)
         (simp_all add: HandleRequest_def process_lastError Let_def writtenAfter_def
            returnedAfter_def split: prod.splits)
  next
    case (Fail e)
    then show ?thesis
      using Ok by (simp add: HandleRequest_def process_lastError writtenAfter_def returnedAfter_def)
  next
    case (Panic p)
    then show ?thesis
      using Ok by (simp add: HandleRequest_def process_lastError writtenAfter_def returnedAfter_def)
  qed
next
  case (Fail e)
  then show ?thesis by (simp add: HandleRequest_def writtenAfter_def returnedAfter_def)
next
  case (Panic p)
  then show ?thesis by (simp add: HandleRequest_def writtenAfter_def returnedAfter_def)
qed

lemma decodeNamespacedCollection_cmd:
  assumes "decodeCString r m = Ok (db @ ''.$cmd'', rr)" and "CHR ''.'' \<notin> set db"
    and "decodeNamespacedCollection r m = Ok (nsCol, r2)"
  shows "nsCol = NamespacedCollection db ''$cmd'' \<and> r2 = rr"
  using assms
  by (auto simp add: decodeNamespacedCollection_def bindR_def wrapR_def SplitN2_cmd Let_def
           split: if_splits)

lemma decodeQueryOp_command:
  assumes q: "decodeQueryOp um hdr r = Ok req"
    and cs: "decodeCString (drop 4 r) (PayloadLength hdr - 4) = Ok (db @ ''.$cmd'', rr)"
    and db: "CHR ''.'' \<notin> set db"
    and qd: "decodeBSONDocument um (drop 8 rr) = Ok ((name, v) # d, r5)"
  shows "case cmdDecoder name of
           Some dec \<Rightarrow> \<exists>nsCol cmdArgs. dec hdr nsCol cmdArgs ReplyTypeOpReply = Ok req
         | None \<Rightarrow> GetType req = RequestTypeCommand"
  using q unfolding decodeQueryOp_def
  apply (elim bindR_OkE)
  apply (clarsimp simp add: wrapR_Ok dest!: read32_Ok)
  apply (erule bindR_OkE)
  apply (clarsimp simp add: wrapR_Ok dest!: decodeNamespacedCollection_cmd [OF cs db])
  apply (erule bindR_OkE)
  apply (clarsimp dest!: read32_Ok)
  apply (erule bindR_OkE)
  apply (clarsimp dest!: read32_Ok)
  apply (erule bindR_OkE)
  apply (clarsimp simp add: wrapR_Ok qd)
  apply (erule bindR_OkE)
  apply (auto simp add: Let_def GetType_def split: option.splits)
  done

lemma decodeMsgOp_Ok_checks:
  assumes "decodeMsgOp um hdr r = Ok req"
  shows "\<exists>flags r1 bodySection docSeqSections r2.
           read32 ''unable to read flags for msg op: %w'' [] r = Ok (flags, r1)
           \<and> msgSections um 0 r1 [] [] = Ok (bodySection, docSeqSections, r2)
           \<and> flags AND 1 \<noteq> 1
           \<and> bodySection \<noteq> []
           \<and> length docSeqSections \<le> 1
           \<and> (\<forall>sec \<in> set docSeqSections. CHR ''.'' \<notin> set (fst sec))"
proof -
  from assms obtain x1 where a1: "read32 ''unable to read flags for msg op: %w'' [] r = Ok x1"
    unfolding decodeMsgOp_def by (rule bindR_OkE)
  obtain flags r1 where x1: "x1 = (flags, r1)" by (cases x1)
  have f: "flags AND 1 \<noteq> 1"
    using decodeMsgOp_checksum [OF a1 [unfolded x1], of um hdr req] assms by auto
  from assms a1 x1 obtain x2 where a2: "msgSections um 0 r1 [] [] = Ok x2"
    unfolding decodeMsgOp_def by (auto elim!: bindR_OkE)
  obtain bodySection docSeqSections r2 where x2: "x2 = (bodySection, docSeqSections, r2)"
    by (cases x2)
  have c: "bodySection \<noteq> [] \<and> length docSeqSections \<le> 1
           \<and> (\<forall>sec \<in> set docSeqSections. CHR ''.'' \<notin> set (fst sec))"
    using assms a1 x1 a2 x2 f
    by (cases docSeqSections)
       (auto simp add: decodeMsgOp_def bindR_def Let_def split: if_splits)
  show ?thesis using a1 x1 a2 x2 f c by blast
qed

lemma unat_of_nat_small: "n < 2 ^ 32 \<Longrightarrow> unat (word_of_nat n :: 32 word) = n"
  by (simp add: unat_of_nat)

lemma big2_snd: "snd (Encode bigMarshal exWriter bigResponse2 7 ReplyTypeOpReply) = None"
  by (simp add: Encode_def Let_def writeOpReplyTo_def emptyResponse_def Write_def exWriter_def
        bigResponse2_def bigMarshal_def)

lemma word32_wrap: "(4294967330 :: 32 word) = 34"
  by simp

lemma big2_out: "wbuf (fst (Encode bigMarshal exWriter bigResponse2 7 ReplyTypeOpReply))
   = put32 34 @ put32 0 @ put32 7 @ put32 1
     @ put32 0 @ put64 0 @ put32 0 @ put32 2 @ bigDoc @ bigDoc"
  by (simp add: Encode_def Let_def writeOpReplyTo_def emptyResponse_def Write_def exWriter_def
        bigResponse2_def bigMarshal_def writeHeaderTo_def length_put32 length_put64 length_bigDoc
        word32_wrap)

section \<open>Claims about Encode\<close>

text \<open>
  Claim C10. Every reply that \<^verbatim>\<open>Encode\<close> writes, for the \<^verbatim>\<open>OP_REPLY\<close> and for the
  \<^verbatim>\<open>OP_MSG\<close> envelope, has \<open>requestId = 0\<close> in its header; \<open>responseTo\<close> is the
  request id given by the caller, whatever the response holds.
\<close>

theorem Encode_requestID_zero:
  assumes "Encode mar w r reqID replyType = (w', None)" and "replyType \<noteq> ReplyTypeNone"
  shows "\<exists>h rest. decodeHeader (drop (length (wbuf w)) (wbuf w')) = Ok (h, rest)
                  \<and> RequestID h = 0 \<and> ResponseTo h = reqID"
proof -
  from Encode_written [OF assms] obtain body where
    "wbuf w' = wbuf w @ (put32 (word_of_nat (16 + length body)) @ put32 0 @ put32 reqID
              @ put32 (if replyType = ReplyTypeOpReply then 1 else 2013) @ body)" ..
  then show ?thesis by (simp add: decodeHeader_put)
qed

theorem Encode_requestID_zero_witness:
  "snd (Encode exMarshal exWriter emptyResponse 7 ReplyTypeOpMsg) = None
   \<and> ReplyTypeOpMsg \<noteq> ReplyTypeNone
   \<and> (\<exists>h rest. decodeHeader (drop (length (wbuf exWriter))
                   (wbuf (fst (Encode exMarshal exWriter emptyResponse 7 ReplyTypeOpMsg)))) = Ok (h, rest)
                  \<and> RequestID h = 0 \<and> ResponseTo h = 7)"
proof -
  have s: "snd (Encode exMarshal exWriter emptyResponse 7 ReplyTypeOpMsg) = None"
    by (simp add: Encode_def Let_def writeOpMsgTo_def emptyResponse_def Write_def exWriter_def)
  then have e: "Encode exMarshal exWriter emptyResponse 7 ReplyTypeOpMsg
                = (fst (Encode exMarshal exWriter emptyResponse 7 ReplyTypeOpMsg), None)"
    by (metis prod.collapse)
  show ?thesis
    using Encode_requestID_zero [OF e] s by simp
qed

text \<open>
  Claim C2, as amended. When \<^verbatim>\<open>Encode\<close> writes a reply \<open>out\<close> for the \<^verbatim>\<open>OP_REPLY\<close> or
  the \<^verbatim>\<open>OP_MSG\<close> envelope, the first 16 bytes of \<open>out\<close> parse as a header with
  \<open>responseTo\<close> the request id, \<open>opcode\<close> 1 or 2013, and \<open>messageLength\<close> the length of
  \<open>out\<close> as a 32-bit value: read as \<^verbatim>\<open>uint32\<close> it is that length when the length is
  below \<open>2^32\<close>, read as \<^verbatim>\<open>int32\<close> when it is below \<open>2^31\<close>.
\<close>

theorem Encode_header:
  assumes "Encode mar w r reqID replyType = (w', None)" and "replyType \<noteq> ReplyTypeNone"
    and "out = drop (length (wbuf w)) (wbuf w')"
  shows "\<exists>h. decodeHeader (take 16 out) = Ok (h, [])
              \<and> ResponseTo h = reqID
              \<and> Opcode h = (if replyType = ReplyTypeOpReply then 1 else 2013)
              \<and> MessageLength h = word_of_nat (length out)
              \<and> (length out < 2 ^ 32 \<longrightarrow> unat (MessageLength h) = length out)
              \<and> (length out < 2 ^ 31 \<longrightarrow> sint (MessageLength h) = int (length out))"
proof -
  from Encode_written [OF assms(1,2)] obtain body where
    b: "wbuf w' = wbuf w @ (put32 (word_of_nat (16 + length body)) @ put32 0 @ put32 reqID
              @ put32 (if replyType = ReplyTypeOpReply then 1 else 2013) @ body)" ..
  let ?h = "put32 (word_of_nat (16 + length body)) @ put32 0 @ put32 reqID
              @ put32 (if replyType = ReplyTypeOpReply then 1 else 2013)"
  have o: "out = ?h @ body" using b assms(3) by simp
  have l: "length out = 16 + length body" using o by (simp add: length_put32)
  have t: "take 16 out = ?h @ []" using o by (simp add: length_put32)
  have d: "decodeHeader (take 16 out)
           = Ok (\<lparr>MessageLength = word_of_nat (16 + length body), RequestID = 0, ResponseTo = reqID,
                  Opcode = (if replyType = ReplyTypeOpReply then 1 else 2013)\<rparr>, [])"
    unfolding t using decodeHeader_put [of _ _ _ _ "[]"] by simp
  show ?thesis
    using d l sint_of_nat_small [of "length out"] unat_of_nat_small [of "length out"] by auto
qed

theorem Encode_header_witness:
  "snd (Encode exMarshal exWriter (emptyResponse\<lparr>Documents := [Map.empty]\<rparr>) 7 ReplyTypeOpReply) = None
   \<and> ReplyTypeOpReply \<noteq> ReplyTypeNone
   \<and> length (wbuf (fst (Encode exMarshal exWriter (emptyResponse\<lparr>Documents := [Map.empty]\<rparr>) 7
                        ReplyTypeOpReply))) = 41
   \<and> (\<exists>h. decodeHeader (take 16 (wbuf (fst (Encode exMarshal exWriter
                 (emptyResponse\<lparr>Documents := [Map.empty]\<rparr>) 7 ReplyTypeOpReply)))) = Ok (h, [])
            \<and> ResponseTo h = 7 \<and> Opcode h = 1 \<and> MessageLength h = 41
            \<and> sint (MessageLength h) = 41)"
proof -
  let ?r = "emptyResponse\<lparr>Documents := [Map.empty]\<rparr>"
  let ?w = "fst (Encode exMarshal exWriter ?r 7 ReplyTypeOpReply)"
  have s: "snd (Encode exMarshal exWriter ?r 7 ReplyTypeOpReply) = None"
    by (simp add: Encode_def Let_def writeOpReplyTo_def emptyResponse_def Write_def
          exWriter_def exMarshal_def)
  then have e: "Encode exMarshal exWriter ?r 7 ReplyTypeOpReply = (?w, None)"
    by (metis prod.collapse)
  have l: "length (wbuf ?w) = 41"
    by (simp add: Encode_def Let_def writeOpReplyTo_def emptyResponse_def Write_def
          exWriter_def exMarshal_def writeHeaderTo_def length_put32 length_put64)
  have o: "wbuf ?w = drop (length (wbuf exWriter)) (wbuf ?w)"
    by (simp add: exWriter_def)
  show ?thesis
    using Encode_header [OF e _ o] s l by auto
qed

text \<open>
  The claim as stated in C2 fails for a reply of \<open>2^31 + 35\<close> bytes, whose
  \<open>messageLength\<close> field reads \<open>-2147483613\<close> as \<^verbatim>\<open>int32\<close>, and for a reply of
  \<open>2^32 + 34\<close> bytes, whose \<open>messageLength\<close> field is 34.
\<close>

theorem Encode_messageLength_counterexample:
  "snd (Encode bigMarshal exWriter bigResponse 7 ReplyTypeOpReply) = None
   \<and> decodeHeader (take 16 (wbuf (fst (Encode bigMarshal exWriter bigResponse 7 ReplyTypeOpReply))))
      = Ok (\<lparr>MessageLength = 0x80000023, RequestID = 0, ResponseTo = 7, Opcode = 1\<rparr>, [])
   \<and> sint (0x80000023 :: 32 word) = - 2147483613
   \<and> int (length (wbuf (fst (Encode bigMarshal exWriter bigResponse 7 ReplyTypeOpReply)))) = 2147483683
   \<and> snd (Encode bigMarshal exWriter bigResponse2 7 ReplyTypeOpReply) = None
   \<and> decodeHeader (take 16 (wbuf (fst (Encode bigMarshal exWriter bigResponse2 7 ReplyTypeOpReply))))
      = Ok (\<lparr>MessageLength = 34, RequestID = 0, ResponseTo = 7, Opcode = 1\<rparr>, [])
   \<and> int (length (wbuf (fst (Encode bigMarshal exWriter bigResponse2 7 ReplyTypeOpReply)))) = 4294967330"
proof -
  have t: "take 16 (wbuf (fst (Encode bigMarshal exWriter bigResponse 7 ReplyTypeOpReply)))
        = put32 0x80000023 @ put32 0 @ put32 7 @ put32 1 @ []"
    by (simp add: big_out length_put32)
  have d: "decodeHeader (take 16 (wbuf (fst (Encode bigMarshal exWriter bigResponse 7 ReplyTypeOpReply))))
      = Ok (\<lparr>MessageLength = 0x80000023, RequestID = 0, ResponseTo = 7, Opcode = 1\<rparr>, [])"
    unfolding t by (rule decodeHeader_put)
  have l: "int (length (wbuf (fst (Encode bigMarshal exWriter bigResponse 7 ReplyTypeOpReply)))) = 2147483683"
    by (simp add: big_out length_put32 length_put64 length_bigDoc)
  have t2: "take 16 (wbuf (fst (Encode bigMarshal exWriter bigResponse2 7 ReplyTypeOpReply)))
        = put32 34 @ put32 0 @ put32 7 @ put32 1 @ []"
    by (simp add: big2_out length_put32)
  have d2: "decodeHeader (take 16 (wbuf (fst (Encode bigMarshal exWriter bigResponse2 7 ReplyTypeOpReply))))
      = Ok (\<lparr>MessageLength = 34, RequestID = 0, ResponseTo = 7, Opcode = 1\<rparr>, [])"
    unfolding t2 by (rule decodeHeader_put)
  have l2: "int (length (wbuf (fst (Encode bigMarshal exWriter bigResponse2 7 ReplyTypeOpReply)))) = 4294967330"
    by (simp add: big2_out length_put32 length_put64 length_bigDoc)
  show ?thesis using big_snd d l big2_snd d2 l2 by simp
qed

section \<open>Claims about the decoder's panic, the built-in commands and the framer\<close>

text \<open>
  Claim C9. A frame with opcode 2007 (\<^verbatim>\<open>OP_KILL_CURSORS\<close>) that holds the reserved field
  and a negative \<open>numberOfCursorIDs\<close> makes \<^verbatim>\<open>Decode\<close> panic in \<^verbatim>\<open>make\<close>; no error
  value is returned. \<^verbatim>\<open>Decode\<close> is not total on the frames with opcode 2007.
\<close>

theorem Decode_killCursors_panics:
  assumes "24 \<le> length frame"
    and "le32 (take 4 (drop 12 frame)) = 2007"
    and "sint (le32 (take 4 (drop 20 frame))) < 0"
  shows "Decode um frame = Panic ''runtime error: makeslice: len out of range''"
  using assms
  by (simp add: Decode_def decodeHeader_long opDecoder_def decodeKillCursorsOp_def
        bindR_def read32_long)

theorem Decode_killCursors_panics_witness:
  "24 \<le> length killCursorsFrame
   \<and> le32 (take 4 (drop 12 killCursorsFrame)) = 2007
   \<and> sint (le32 (take 4 (drop 20 killCursorsFrame))) < 0
   \<and> Decode (Unmarshal exExt) killCursorsFrame = Panic ''runtime error: makeslice: len out of range''"
proof -
  have a: "24 \<le> length killCursorsFrame" by (simp add: killCursorsFrame_def)
  have b: "le32 (take 4 (drop 12 killCursorsFrame)) = 2007"
    by (simp add: killCursorsFrame_def le32_def)
  have c: "sint (le32 (take 4 (drop 20 killCursorsFrame))) < 0"
    by (simp add: killCursorsFrame_def le32_def)
  show ?thesis
    using Decode_killCursors_panics [OF a b c] a b c by simp
qed

text \<open>
  Claim C8. \<^verbatim>\<open>handleReplSetGetStatus\<close> never returns a success response: on a database
  other than \<open>admin\<close> it fails with \<^verbatim>\<open>ServerError\<close> code 13 and the message
  "replSetGetStatus may only be run against the admin database.", on \<open>admin\<close> with code 76
  and "not running with --replSet". For the \<^verbatim>\<open>OP_MSG\<close> envelope the error document
  holds \<open>errmsg\<close>, \<open>ok: 0\<close>, the code and its name (\<open>Unauthorized\<close>,
  \<open>NoReplicationEnabled\<close>). \<^verbatim>\<open>fmt.Sprintf\<close> is taken to return a format without verbs
  unchanged.
\<close>

theorem replSetGetStatus_fails:
  assumes "\<forall>f. CHR ''%'' \<notin> set f \<longrightarrow> Sprintf x f [] = f"
  shows "snd (handleReplSetGetStatus x b clientID (i, collection, command, args))
         = Some (if Database collection \<noteq> ''admin''
                 then ServerError ''replSetGetStatus may only be run against the admin database.'' 13
                 else ServerError ''not running with --replSet'' 76)
       \<and> Documents (toErrorResponse x
            (ServerError ''replSetGetStatus may only be run against the admin database.'' 13)
            ReplyTypeOpMsg)
         = [[''errmsg'' \<mapsto> BString ''replSetGetStatus may only be run against the admin database.'',
             ''code'' \<mapsto> BInt 13, ''codeName'' \<mapsto> BString ''Unauthorized'', ''ok'' \<mapsto> BInt 0]]
       \<and> Documents (toErrorResponse x (ServerError ''not running with --replSet'' 76) ReplyTypeOpMsg)
         = [[''errmsg'' \<mapsto> BString ''not running with --replSet'',
             ''code'' \<mapsto> BInt 76, ''codeName'' \<mapsto> BString ''NoReplicationEnabled'',
             ''ok'' \<mapsto> BInt 0]]"
proof -
  have 1: "Sprintf x ''replSetGetStatus may only be run against the admin database.'' []
           = ''replSetGetStatus may only be run against the admin database.''"
    using assms by simp
  have 2: "Sprintf x ''not running with --replSet'' [] = ''not running with --replSet''"
    using assms by simp
  show ?thesis
    by (simp add: handleReplSetGetStatus_def ServerErrorf_def 1 2 toErrorResponse_def
          ErrorCodeString_def Let_def)
qed

theorem replSetGetStatus_fails_witness:
  "snd (handleReplSetGetStatus exExt dummyBackend ''client''
          (RequestInfo \<lparr>MessageLength = 0, RequestID = 1, ResponseTo = 0, Opcode = 2013\<rparr>
             RequestTypeCommand ReplyTypeOpMsg,
           NamespacedCollection ''test'' [], ''replSetGetStatus'', Map.empty))
   = Some (ServerError ''replSetGetStatus may only be run against the admin database.'' 13)
   \<and> snd (handleReplSetGetStatus exExt dummyBackend ''client''
          (RequestInfo \<lparr>MessageLength = 0, RequestID = 1, ResponseTo = 0, Opcode = 2013\<rparr>
             RequestTypeCommand ReplyTypeOpMsg,
           NamespacedCollection ''admin'' [], ''replSetGetStatus'', Map.empty))
   = Some (ServerError ''not running with --replSet'' 76)"
proof -
  have h: "\<forall>f. CHR ''%'' \<notin> set f \<longrightarrow> Sprintf exExt f [] = f"
    by (simp add: exExt_def)
  show ?thesis
    using replSetGetStatus_fails [OF h, of dummyBackend "''client''" _ "NamespacedCollection ''test'' []"]
      replSetGetStatus_fails [OF h, of dummyBackend "''client''" _ "NamespacedCollection ''admin'' []"]
    by simp
qed

text \<open>
  Claim C6, as amended. A frame that \<^verbatim>\<open>bufferNextRequest\<close> accepts is a prefix of the
  stream whose length is its \<open>messageLength\<close> field, read as \<^verbatim>\<open>uint32\<close>, and that field
  is at least 16; the framer fails on every stream whose first four bytes declare less
  than 16. No upper bound is checked.
\<close>

theorem bufferNextRequest_frame:
  "(bufferNextRequest r = Inr (frame, rest) \<longrightarrow>
      16 \<le> unat (le32 (take 4 frame)) \<and> length frame = unat (le32 (take 4 frame))
      \<and> r = frame @ rest)
   \<and> (unat (le32 (take 4 r)) < 16 \<longrightarrow> (\<exists>e. bufferNextRequest r = Inl e))"
proof (intro conjI impI)
  assume a: "bufferNextRequest r = Inr (frame, rest)"
  then obtain b r1 where b: "CopyN r 16 = Inr (b, r1)"
    by (auto simp add: bufferNextRequest_def split: sum.splits)
  then have rb: "r = b @ r1" "length b = 16" using CopyN_Inr by blast+
  from a b have ge: "\<not> le32 b < 16"
    by (auto simp add: bufferNextRequest_def Let_def split: if_splits)
  from a b ge obtain p r2 where p: "CopyN r1 (unat (le32 b - 16)) = Inr (p, r2)"
    and f: "frame = b @ p" "rest = r2"
    by (auto simp add: bufferNextRequest_def Let_def split: sum.splits)
  from p have rp: "r1 = p @ r2" "length p = unat (le32 b - 16)" using CopyN_Inr by blast+
  have t: "take 4 frame = take 4 b" using f rb by simp
  have tb: "le32 (take 4 frame) = le32 b" unfolding t by (simp add: le32_def rb)
  have ge': "16 \<le> unat (le32 b)" using ge by (simp add: word_less_nat_alt)
  have "unat (le32 b - 16) = unat (le32 b) - 16"
    using ge by (simp add: unat_sub word_le_nat_alt not_less)
  then show "16 \<le> unat (le32 (take 4 frame))" "length frame = unat (le32 (take 4 frame))"
    "r = frame @ rest"
    using ge' f rb rp tb by auto
next
  assume a: "unat (le32 (take 4 r)) < 16"
  show "\<exists>e. bufferNextRequest r = Inl e"
  proof (cases "CopyN r 16")
    case (Inl e)
    then show ?thesis by (simp add: bufferNextRequest_def)
  next
    case (Inr x)
    obtain b r1 where x: "x = (b, r1)" by (cases x)
    have rb: "r = b @ r1" "length b = 16" using CopyN_Inr Inr x by blast+
    have "le32 (take 4 r) = le32 b" by (simp add: le32_def rb)
    then have "le32 b < 16" using a by (simp add: word_less_nat_alt)
    then show ?thesis using Inr x by (simp add: bufferNextRequest_def Let_def)
  qed
qed

theorem bufferNextRequest_frame_witness:
  "bufferNextRequest killCursorsFrame = Inr (killCursorsFrame, [])
   \<and> 16 \<le> unat (le32 (take 4 killCursorsFrame))
   \<and> length killCursorsFrame = unat (le32 (take 4 killCursorsFrame))
   \<and> unat (le32 (take 4 shortStream)) < 16
   \<and> (\<exists>e. bufferNextRequest shortStream = Inl e)"
proof -
  have a: "bufferNextRequest killCursorsFrame = Inr (killCursorsFrame, [])"
    by (simp add: bufferNextRequest_def CopyN_def killCursorsFrame_def le32_def Let_def)
  have b: "unat (le32 (take 4 shortStream)) < 16"
    by (simp add: shortStream_def le32_def)
  show ?thesis
    using bufferNextRequest_frame [of killCursorsFrame killCursorsFrame "[]"]
      bufferNextRequest_frame [of shortStream] a b
    by simp
qed

text \<open>
  The claim as stated in C6 fails: a frame that declares 48,000,001 bytes and is followed
  by them is accepted.
\<close>

theorem bufferNextRequest_counterexample:
  "bufferNextRequest bigStream = Inr (bigStream, [])
   \<and> unat (le32 (take 4 bigStream)) = 48000001"
proof -
  have c: "CopyN bigStream 16 = Inr (put32 48000001 @ take 12 bigPayload, drop 12 bigPayload)"
    by (simp add: CopyN_def bigStream_def length_put32 length_bigPayload)
  have l: "le32 (put32 48000001 @ take 12 bigPayload) = 48000001"
    by (simp add: le32_append length_put32 le32_put32)
  have c2: "CopyN (drop 12 bigPayload) 47999985 = Inr (drop 12 bigPayload, [])"
    by (simp add: CopyN_def length_bigPayload)
  have b: "bufferNextRequest bigStream = Inr (bigStream, [])"
    by (simp add: bufferNextRequest_def c l Let_def c2) (simp add: bigStream_def)
  have t: "take 4 bigStream = put32 48000001"
    by (simp add: bigStream_def length_put32)
  show ?thesis using b unfolding t by (simp add: le32_put32)
qed

section \<open>Claims about the decoding of commands\<close>

text \<open>
  Claim C4, as amended. For every \<^verbatim>\<open>OP_QUERY\<close> frame that \<^verbatim>\<open>Decode\<close> accepts, whose
  namespace cstring is \<open>db.$cmd\<close> with no \<open>.\<close> in \<open>db\<close> (so that the part after the first
  \<open>.\<close> is \<open>$cmd\<close>) and whose query document has \<open>insert\<close>, \<open>update\<close>, \<open>delete\<close>, \<open>find\<close> or
  \<open>findAndModify\<close> as its first field name, the request has the semantic type: insert,
  update, delete, query, and findAndUpdate or findAndDelete; never command.
\<close>

theorem decodeQuery_command_type:
  assumes dec: "Decode um frame = Ok req"
    and opc: "le32 (take 4 (drop 12 frame)) = 2004"
    and ns: "queryNamespace frame = Some (db @ ''.$cmd'')"
    and db: "CHR ''.'' \<notin> set db"
    and ff: "queryFirstField um frame = Some name"
  shows "(name = ''insert'' \<longrightarrow> GetType req = RequestTypeInsert)
       \<and> (name = ''update'' \<longrightarrow> GetType req = RequestTypeUpdate)
       \<and> (name = ''delete'' \<longrightarrow> GetType req = RequestTypeDelete)
       \<and> (name = ''find'' \<longrightarrow> GetType req = RequestTypeQuery)
       \<and> (name = ''findAndModify'' \<longrightarrow>
            GetType req = RequestTypeFindAndUpdate \<or> GetType req = RequestTypeFindAndDelete)"
proof -
  obtain hdr r where h: "decodeHeader frame = Ok (hdr, r)"
    using dec by (cases "decodeHeader frame") (auto simp add: Decode_def)
  note hh = decodeHeader_Ok [OF h]
  have q: "decodeQueryOp um hdr r = Ok req"
    using dec h hh opc by (simp add: Decode_def opDecoder_def)
  obtain rr where cs: "decodeCString (drop 20 frame) (sint (le32 (take 4 frame)) - 20)
                       = Ok (db @ ''.$cmd'', rr)"
    using ns by (auto simp add: queryNamespace_def split: result.splits)
  have cs': "decodeCString (drop 4 r) (PayloadLength hdr - 4) = Ok (db @ ''.$cmd'', rr)"
    using cs hh by (simp add: PayloadLength_def)
  obtain v d r5 where qd: "decodeBSONDocument um (drop 8 rr) = Ok ((name, v) # d, r5)"
    using ff cs by (auto simp add: queryFirstField_def split: result.splits list.splits)
  note c = decodeQueryOp_command [OF q cs' db qd]
  show ?thesis
    using c
    by (auto simp add: cmdDecoder_def
             dest: decodeInsertCommand_type decodeUpdateCommand_type decodeDeleteCommand_type
                   decodeFindCommand_type decodeFindAndModifyCommand_type)
qed

theorem decodeQuery_command_type_witness:
  "typeOf (Decode exUnmarshal insertCmdFrame) = Some RequestTypeInsert
   \<and> le32 (take 4 (drop 12 insertCmdFrame)) = 2004
   \<and> queryNamespace insertCmdFrame = Some ''a.$cmd''
   \<and> queryFirstField exUnmarshal insertCmdFrame = Some ''insert''"
proof -
  have t: "isOk (Decode exUnmarshal insertCmdFrame)" by code_simp
  then obtain req where d: "Decode exUnmarshal insertCmdFrame = Ok req"
    by (cases "Decode exUnmarshal insertCmdFrame") (auto simp add: isOk_def)
  have o: "le32 (take 4 (drop 12 insertCmdFrame)) = 2004"
    by (simp add: insertCmdFrame_def le32_def)
  have n: "queryNamespace insertCmdFrame = Some (''a'' @ ''.$cmd'')" by code_simp
  have f: "queryFirstField exUnmarshal insertCmdFrame = Some ''insert''" by code_simp
  have "GetType req = RequestTypeInsert"
    using decodeQuery_command_type [OF d o n _ f] by simp
  then show ?thesis using d o n f by (simp add: typeOf_def)
qed

text \<open>
  The claim as stated in C4 fails for the namespace \<open>a.b.$cmd\<close>, which ends in \<open>.$cmd\<close>:
  the namespace is split at its first \<open>.\<close>, the collection is \<open>b.$cmd\<close>, and the frame
  decodes to a query though its first field is \<open>insert\<close>.
\<close>

theorem decodeQuery_nested_cmd_counterexample:
  "le32 (take 4 (drop 12 nestedCmdFrame)) = 2004
   \<and> queryNamespace nestedCmdFrame = Some ''a.b.$cmd''
   \<and> queryFirstField exUnmarshal nestedCmdFrame = Some ''insert''
   \<and> typeOf (Decode exUnmarshal nestedCmdFrame) = Some RequestTypeQuery"
proof -
  have o: "le32 (take 4 (drop 12 nestedCmdFrame)) = 2004"
    by (simp add: nestedCmdFrame_def le32_def)
  have n: "queryNamespace nestedCmdFrame = Some ''a.b.$cmd''" by code_simp
  have f: "queryFirstField exUnmarshal nestedCmdFrame = Some ''insert''" by code_simp
  have t: "typeOf (Decode exUnmarshal nestedCmdFrame) = Some RequestTypeQuery" by code_simp
  show ?thesis using o n f t by simp
qed

text \<open>
  Claim C3 does not hold of the code. The section loop of \<^verbatim>\<open>decodeMsgOp\<close> stops only at
  the end of the payload, so the read of the checksum that follows it always meets
  \<^verbatim>\<open>io.EOF\<close>: no \<^verbatim>\<open>OP_MSG\<close> frame with bit 0 of \<open>flagBits\<close> set is decoded, with or without
  the four checksum bytes. The frame \<open>msgChecksumFrame\<close> is rejected; the same message
  without the bit and the checksum, \<open>msgPlainFrame\<close>, is decoded.
\<close>

theorem Decode_checksum_fails:
  assumes "le32 (take 4 (drop 12 frame)) = 2013"
    and "le32 (take 4 (drop 16 frame)) AND 1 = 1"
  shows "\<not> isOk (Decode um frame)"
proof (cases "decodeHeader frame")
  case (Ok x)
  obtain hdr r where x: "x = (hdr, r)" by (cases x)
  note hh = decodeHeader_Ok [OF Ok [unfolded x]]
  have d: "Decode um frame = decodeMsgOp um hdr r"
    using Ok x hh assms(1) by (simp add: Decode_def opDecoder_def)
  show ?thesis
  proof (cases "read32 ''unable to read flags for msg op: %w'' [] r")
    case f: (Ok y)
    obtain flags r1 where y: "y = (flags, r1)" by (cases y)
    have "flags = le32 (take 4 (drop 16 frame))"
      using f y hh by (auto dest!: read32_Ok)
    then have "flags AND 1 = 1" using assms(2) by simp
    from decodeMsgOp_checksum [OF f [unfolded y] this]
    show ?thesis unfolding d by (cases "decodeMsgOp um hdr r") (auto simp add: isOk_def)
  next
    case (Fail e)
    then show ?thesis unfolding d by (simp add: decodeMsgOp_def bindR_def isOk_def)
  next
    case (Panic p)
    then show ?thesis unfolding d by (simp add: decodeMsgOp_def bindR_def isOk_def)
  qed
next
  case (Fail e)
  then show ?thesis by (simp add: Decode_def isOk_def)
next
  case (Panic p)
  then show ?thesis by (simp add: Decode_def isOk_def)
qed

theorem Decode_checksum_fails_witness:
  "le32 (take 4 (drop 12 msgChecksumFrame)) = 2013
   \<and> le32 (take 4 (drop 16 msgChecksumFrame)) AND 1 = 1
   \<and> \<not> isOk (Decode exUnmarshal msgChecksumFrame)
   \<and> errOf (Decode exUnmarshal msgChecksumFrame)
       = Some (Errorf ''unknown type %d for section at index %d in msg op'' [AInt 222, AInt 1] None)
   \<and> typeOf (Decode exUnmarshal msgPlainFrame) = Some RequestTypeCommand"
proof -
  have a: "le32 (take 4 (drop 12 msgChecksumFrame)) = 2013"
    by (simp add: msgChecksumFrame_def le32_def)
  have b: "le32 (take 4 (drop 16 msgChecksumFrame)) AND 1 = 1"
    by (simp add: msgChecksumFrame_def le32_def)
  have c: "errOf (Decode exUnmarshal msgChecksumFrame)
       = Some (Errorf ''unknown type %d for section at index %d in msg op'' [AInt 222, AInt 1] None)"
    by code_simp
  have d: "typeOf (Decode exUnmarshal msgPlainFrame) = Some RequestTypeCommand"
    by code_simp
  show ?thesis
    using Decode_checksum_fails [OF a b, of exUnmarshal] a b c d by simp
qed

text \<open>
  Claim C5 does not hold of the code for a second body section: the loop keeps the last
  body section it reads and the checks after it only look for a missing one. The frame
  \<open>twoBodyFrame\<close>, with the two body sections \<open>{ping: 1}\<close> and \<open>{ping: 1}\<close>, is decoded.
  The checks that are made (a body section was read, at most one document sequence, no
  \<open>.\<close> in its path) are \<open>decodeMsgOp_Ok_checks\<close>.
\<close>

theorem Decode_two_bodies_accepted:
  "le32 (take 4 (drop 12 twoBodyFrame)) = 2013
   \<and> twoBodyFrame = take 20 twoBodyFrame @ [0] @ pingDoc @ [0] @ pingDoc
   \<and> typeOf (Decode exUnmarshal twoBodyFrame) = Some RequestTypeCommand"
proof -
  have a: "le32 (take 4 (drop 12 twoBodyFrame)) = 2013"
    by (simp add: twoBodyFrame_def le32_def)
  have b: "twoBodyFrame = take 20 twoBodyFrame @ [0] @ pingDoc @ [0] @ pingDoc"
    by (simp add: twoBodyFrame_def pingDoc_def)
  have c: "typeOf (Decode exUnmarshal twoBodyFrame) = Some RequestTypeCommand"
    by code_simp
  show ?thesis using a b c by simp
qed

section \<open>Claims about the dispatcher\<close>

text \<open>
  Claim C1, as amended. For a decodable request whose processing returns an error: when
  the reply envelope is \<^verbatim>\<open>None\<close>, \<^verbatim>\<open>HandleRequest\<close> returns success, writes nothing and
  leaves the error in the client's \<^verbatim>\<open>lastError\<close> entry; for the other envelopes it encodes
  the error response with the request's id and envelope, and the client's \<^verbatim>\<open>lastError\<close>
  entry is reset to \<^verbatim>\<open>nil\<close>.
\<close>

theorem HandleRequest_error:
  assumes "Decode (Unmarshal x) reqData = Ok req"
    and "process emu clientID req = Ok ((res, Some e), emu1)"
  shows "(GetReplyType req = ReplyTypeNone \<longrightarrow>
            HandleRequest x emu clientID w reqData
            = Ok (emu1\<lparr>lastError := (lastError emu1)(clientID \<mapsto> Some e)\<rparr>, w, None))
       \<and> (GetReplyType req \<noteq> ReplyTypeNone \<longrightarrow>
            HandleRequest x emu clientID w reqData
            = Ok (emu1\<lparr>lastError := (lastError emu1)(clientID \<mapsto> None)\<rparr>,
                  Encode (Marshal x) w (toErrorResponse x e (GetReplyType req))
                    (RequestID_of req) (GetReplyType req)))"
  using assms
  by (simp add: HandleRequest_def Let_def split: prod.splits)

theorem HandleRequest_error_witness:
  "lastErrorAfter (HandleRequest exExt (newEmu failingBackend) ''c'' exWriter insertFrame) ''c''
     = Some (Some (ExtError ''insert failed''))
   \<and> writtenAfter (HandleRequest exExt (newEmu failingBackend) ''c'' exWriter insertFrame) = Some []
   \<and> returnedAfter (HandleRequest exExt (newEmu failingBackend) ''c'' exWriter insertFrame) = Some None
   \<and> lastErrorAfter (HandleRequest exExt (newEmu cursorBackend) ''c'' exWriter getMoreFrame) ''c''
     = Some None"
proof -
  have t1: "typeOf (Decode (Unmarshal exExt) insertFrame) = Some RequestTypeInsert" by code_simp
  have r1: "replyTypeOf (Decode (Unmarshal exExt) insertFrame) = Some ReplyTypeNone" by code_simp
  obtain req1 where d1: "Decode (Unmarshal exExt) insertFrame = Ok req1"
    using t1 by (cases "Decode (Unmarshal exExt) insertFrame") (auto simp add: typeOf_def)
  have g1: "GetType req1 = RequestTypeInsert" "GetReplyType req1 = ReplyTypeNone"
    using t1 r1 d1 by (simp_all add: typeOf_def replyTypeOf_def)
  have p1: "process (newEmu failingBackend) ''c'' req1
            = Ok ((emptyResponse, Some (ExtError ''insert failed'')),
                  (newEmu failingBackend)\<lparr>emu_bstate := ()\<rparr>)"
    using g1 by (simp add: process_def newEmu_def failingBackend_def Let_def)
  have r2: "replyTypeOf (Decode (Unmarshal exExt) getMoreFrame) = Some ReplyTypeOpReply" by code_simp
  obtain req2 where d2: "Decode (Unmarshal exExt) getMoreFrame = Ok req2"
    using r2 by (cases "Decode (Unmarshal exExt) getMoreFrame") (auto simp add: replyTypeOf_def)
  have g2: "GetReplyType req2 = ReplyTypeOpReply"
    using r2 d2 by (simp add: replyTypeOf_def)
  have p2: "process (newEmu cursorBackend) ''c'' req2
            = Ok ((emptyResponse, Some ErrInvalidCursor),
                  (newEmu cursorBackend)\<lparr>emu_bstate := ()\<rparr>)"
    by (simp add: process_def newEmu_def cursorBackend_def Let_def)
  show ?thesis
    using HandleRequest_error [OF d1 p1, of exWriter] HandleRequest_error [OF d2 p2, of exWriter] g1 g2
    by (simp add: lastErrorAfter_def writtenAfter_def returnedAfter_def exWriter_def
          split: prod.splits)
qed

text \<open>
  The claim as stated in C1 fails for an \<^verbatim>\<open>OP_GET_MORE\<close> request that the backend
  answers with \<^verbatim>\<open>ErrInvalidCursor\<close>: after \<^verbatim>\<open>HandleRequest\<close> the client's \<^verbatim>\<open>lastError\<close>
  entry is \<^verbatim>\<open>nil\<close>.
\<close>

theorem HandleRequest_lastError_counterexample:
  "replyTypeOf (Decode (Unmarshal exExt) getMoreFrame) = Some ReplyTypeOpReply
   \<and> processedError exExt (newEmu cursorBackend) ''c'' getMoreFrame = Some ErrInvalidCursor
   \<and> lastErrorAfter (HandleRequest exExt (newEmu cursorBackend) ''c'' exWriter getMoreFrame) ''c''
       = Some None"
proof -
  have a: "replyTypeOf (Decode (Unmarshal exExt) getMoreFrame) = Some ReplyTypeOpReply"
    by code_simp
  have b: "processedError exExt (newEmu cursorBackend) ''c'' getMoreFrame = Some ErrInvalidCursor"
    by code_simp
  have c: "lastErrorAfter (HandleRequest exExt (newEmu cursorBackend) ''c'' exWriter getMoreFrame) ''c''
       = Some None"
    by code_simp
  show ?thesis using a b c by simp
qed

text \<open>
  Claim C7 does not hold of the code in its second half. After an insert that fails with
  no reply nothing is written and the error is in \<^verbatim>\<open>lastError\<close>; but no handler reads
  \<^verbatim>\<open>lastError\<close> (\<open>HandleRequest_ignores_lastError\<close>) and \<open>getLastError\<close> is not a
  registered command: the next \<open>getLastError\<close> is answered as an unsupported command,
  with the bytes it would get without the failed insert, and the buffered error is
  reset.
\<close>

theorem getLastError_does_not_observe:
  "writtenAfter (handleConn exExt (newEmu failingBackend) ''c'' exWriter insertFrame) = Some []
   \<and> lastErrorAfter (handleConn exExt (newEmu failingBackend) ''c'' exWriter insertFrame) ''c''
       = Some (Some (ExtError ''insert failed''))
   \<and> processedError exExt
        ((newEmu failingBackend)\<lparr>lastError := [''c'' \<mapsto> Some (ExtError ''insert failed'')]\<rparr>)
        ''c'' getLastErrorFrame
       = Some (Errorf ''command %q: %w'' [AStr ''getLastError''] (Some ErrUnsupportedRequest))
   \<and> writtenAfter (handleConn exExt (newEmu failingBackend) ''c'' exWriter
                     (insertFrame @ getLastErrorFrame))
       = writtenAfter (handleConn exExt (newEmu failingBackend) ''c'' exWriter getLastErrorFrame)
   \<and> lastErrorAfter (handleConn exExt (newEmu failingBackend) ''c'' exWriter
                       (insertFrame @ getLastErrorFrame)) ''c''
       = Some None"
proof -
  have a: "writtenAfter (handleConn exExt (newEmu failingBackend) ''c'' exWriter insertFrame) = Some []"
    by code_simp
  have b: "lastErrorAfter (handleConn exExt (newEmu failingBackend) ''c'' exWriter insertFrame) ''c''
       = Some (Some (ExtError ''insert failed''))"
    by code_simp
  have c: "processedError exExt
        ((newEmu failingBackend)\<lparr>lastError := [''c'' \<mapsto> Some (ExtError ''insert failed'')]\<rparr>)
        ''c'' getLastErrorFrame
       = Some (Errorf ''command %q: %w'' [AStr ''getLastError''] (Some ErrUnsupportedRequest))"
    by code_simp
  have d: "writtenAfter (handleConn exExt (newEmu failingBackend) ''c'' exWriter
                     (insertFrame @ getLastErrorFrame))
       = writtenAfter (handleConn exExt (newEmu failingBackend) ''c'' exWriter getLastErrorFrame)"
    by code_simp
  have e: "lastErrorAfter (handleConn exExt (newEmu failingBackend) ''c'' exWriter
                       (insertFrame @ getLastErrorFrame)) ''c''
       = Some None"
    by code_simp
  show ?thesis using a b c d e by simp
qed

end
